theory Spec2Isabelle
  imports Complex_Main "HOL-Library.Multiset"
begin

section \<open>JavaScript values used by the extraction script\<close>

text \<open>
  A JavaScript string is a sequence of UTF-16 code units; every literal of the script lies in
  Latin-1. \<open>str\<close> turns an ASCII literal into code units, other characters are written
  by their code (\<open>0xED\<close> is i-acute, \<open>0xE7\<close> is c-cedilla).
\<close>

type_synonym jsstring = "nat list"

definition str :: "string \<Rightarrow> jsstring" where
  "str s = map of_char s"

text \<open>
  A number is a binary64 value. Finite values are kept as exact rationals (the rounding of the
  mantissa is not reproduced, and \<open>-0\<close> is identified with \<open>0\<close>, which the script
  never tells apart); NaN and the two infinities are values of their own.
\<close>

datatype jsnum = Fin rat | NaN | PosInf | NegInf

text \<open>The values a cell of the sheet array can hold, and \<open>undefined\<close> for a read past the end.\<close>

datatype cell = CUndefined | CNull | CBool bool | CNum jsnum | CStr jsstring

type_synonym grid = "cell list list"

subsection \<open>String.prototype.trim and toLowerCase\<close>

text \<open>WhiteSpace and LineTerminator code units: what \<open>trim\<close>, the regex class \<open>\s\<close> and
  \<open>Number\<close> strip.\<close>

definition isWhiteSpace :: "nat \<Rightarrow> bool" where
  "isWhiteSpace c \<longleftrightarrow>
     c = 0x9 \<or> c = 0xA \<or> c = 0xB \<or> c = 0xC \<or> c = 0xD \<or> c = 0x20 \<or> c = 0xA0 \<or>
     c = 0x1680 \<or> (0x2000 \<le> c \<and> c \<le> 0x200A) \<or> c = 0x2028 \<or> c = 0x2029 \<or>
     c = 0x202F \<or> c = 0x205F \<or> c = 0x3000 \<or> c = 0xFEFF"

definition trim :: "jsstring \<Rightarrow> jsstring" where
  "trim s = rev (dropWhile isWhiteSpace (rev (dropWhile isWhiteSpace s)))"

text \<open>
  Lower-casing of one code unit. The table holds every character whose lower-case form lies in
  Latin-1 (A-Z, the Latin-1 capitals, and the four characters outside Latin-1 that map into
  it); any other code unit is left as it is. The script only ever compares lower-cased text
  with its own Latin-1 literals, and the lower-case form in JavaScript of a character that is
  left alone here has a code unit outside Latin-1 (U+0130 becomes \<open>i\<close> followed by U+0307),
  so every comparison is decided as the engine decides it.
\<close>

definition lowerUnit :: "nat \<Rightarrow> nat" where
  "lowerUnit c =
     (if (0x41 \<le> c \<and> c \<le> 0x5A) \<or> (0xC0 \<le> c \<and> c \<le> 0xDE \<and> c \<noteq> 0xD7) then c + 32
      else if c = 0x178 then 0xFF
      else if c = 0x1E9E then 0xDF
      else if c = 0x212A then 0x6B
      else if c = 0x212B then 0xE5
      else c)"

definition toLowerCase :: "jsstring \<Rightarrow> jsstring" where
  "toLowerCase s = map lowerUnit s"

subsection \<open>String(x)\<close>

function digits_of :: "nat \<Rightarrow> jsstring" where
  "digits_of n = (if n < 10 then [48 + n] else digits_of (n div 10) @ [48 + n mod 10])"
  by pat_completeness auto
termination
  by (relation "measure id") auto

declare digits_of.simps [simp del]

fun frac_digits :: "nat \<Rightarrow> rat \<Rightarrow> jsstring" where
  "frac_digits 0 q = []"
| "frac_digits (Suc k) q =
     (if q = 0 then []
      else (48 + nat \<lfloor>q * 10\<rfloor>) # frac_digits k (q * 10 - of_int \<lfloor>q * 10\<rfloor>))"

text \<open>
  Number::toString: exact for the integers below \<open>10^21\<close> and for decimals with a short
  terminating expansion; the exponent notation of very large and very small numbers is
  not reproduced (at most 17 fractional digits are written).
\<close>

definition numToString :: "jsnum \<Rightarrow> jsstring" where
  "numToString x =
     (case x of
        NaN \<Rightarrow> str ''NaN''
      | PosInf \<Rightarrow> str ''Infinity''
      | NegInf \<Rightarrow> str ''-Infinity''
      | Fin q \<Rightarrow>
          (if q < 0 then str ''-'' else []) @ digits_of (nat \<lfloor>\<bar>q\<bar>\<rfloor>) @
          (if \<bar>q\<bar> = of_int \<lfloor>\<bar>q\<bar>\<rfloor> then []
           else 0x2E # frac_digits 17 (\<bar>q\<bar> - of_int \<lfloor>\<bar>q\<bar>\<rfloor>)))"

fun ToString :: "cell \<Rightarrow> jsstring" where
  "ToString CUndefined = str ''undefined''"
| "ToString CNull = str ''null''"
| "ToString (CBool b) = (if b then str ''true'' else str ''false'')"
| "ToString (CNum n) = numToString n"
| "ToString (CStr s) = s"

text \<open>ToBoolean: what \<open>!x\<close>, \<open>x || y\<close> and \<open>if (x)\<close> test.\<close>

fun truthy :: "cell \<Rightarrow> bool" where
  "truthy CUndefined = False"
| "truthy CNull = False"
| "truthy (CBool b) = b"
| "truthy (CNum n) = (n \<noteq> Fin 0 \<and> n \<noteq> NaN)"
| "truthy (CStr s) = (s \<noteq> [])"

subsection \<open>Number(s) on a string\<close>

definition isDigit :: "nat \<Rightarrow> bool" where
  "isDigit c \<longleftrightarrow> 48 \<le> c \<and> c \<le> 57"

definition digitsValue :: "nat \<Rightarrow> jsstring \<Rightarrow> nat" where
  "digitsValue radix ds = foldl (\<lambda>a d. radix * a + d) 0 ds"

text \<open>The value of one digit of a hexadecimal, octal or binary literal, if it is one.\<close>

definition digitOf :: "nat \<Rightarrow> nat \<Rightarrow> nat option" where
  "digitOf radix c =
     (let v = (if isDigit c then Some (c - 48)
               else if 0x61 \<le> c \<and> c \<le> 0x66 then Some (c - 87)
               else if 0x41 \<le> c \<and> c \<le> 0x46 then Some (c - 55)
               else None)
      in case v of None \<Rightarrow> None | Some d \<Rightarrow> if d < radix then Some d else None)"

definition radixLiteral :: "nat \<Rightarrow> jsstring \<Rightarrow> nat option" where
  "radixLiteral radix ds =
     (if ds \<noteq> [] \<and> list_all (\<lambda>c. digitOf radix c \<noteq> None) ds
      then Some (digitsValue radix (map (\<lambda>c. the (digitOf radix c)) ds))
      else None)"

definition nonDecimalLiteral :: "jsstring \<Rightarrow> nat option" where
  "nonDecimalLiteral t =
     (case t of
        z # p # ds \<Rightarrow>
          if z \<noteq> 0x30 then None
          else if p = 0x78 \<or> p = 0x58 then radixLiteral 16 ds
          else if p = 0x6F \<or> p = 0x4F then radixLiteral 8 ds
          else if p = 0x62 \<or> p = 0x42 then radixLiteral 2 ds
          else None
      | _ \<Rightarrow> None)"

text \<open>ExponentPart: nothing, or \<open>e\<close>/\<open>E\<close>, an optional sign and at least one digit.\<close>

definition exponentPart :: "jsstring \<Rightarrow> int option" where
  "exponentPart rest =
     (case rest of
        [] \<Rightarrow> Some 0
      | c # r \<Rightarrow>
          if c = 0x65 \<or> c = 0x45 then
            (let neg = (r \<noteq> [] \<and> hd r = 0x2D);
                 ds = (if r \<noteq> [] \<and> (hd r = 0x2B \<or> hd r = 0x2D) then tl r else r)
             in if ds \<noteq> [] \<and> list_all isDigit ds
                then Some ((if neg then - 1 else 1) * int (digitsValue 10 (map (\<lambda>d. d - 48) ds)))
                else None)
          else None)"

definition pow10 :: "int \<Rightarrow> rat" where
  "pow10 e = (if 0 \<le> e then 10 ^ nat e else 1 / 10 ^ nat (- e))"

text \<open>StrUnsignedDecimalLiteral without \<open>Infinity\<close>: digits, an optional point and digits, an
  optional exponent; at least one digit before or after the point.\<close>

definition unsignedDecimal :: "jsstring \<Rightarrow> rat option" where
  "unsignedDecimal u =
     (let ip = takeWhile isDigit u;
          r1 = dropWhile isDigit u;
          dot = (r1 \<noteq> [] \<and> hd r1 = 0x2E);
          fp = (if dot then takeWhile isDigit (tl r1) else []);
          r2 = (if dot then dropWhile isDigit (tl r1) else r1)
      in if ip = [] \<and> fp = [] then None
         else (case exponentPart r2 of
                 None \<Rightarrow> None
               | Some e \<Rightarrow>
                   Some (of_nat (digitsValue 10 (map (\<lambda>d. d - 48) (ip @ fp)))
                         * pow10 (e - int (length fp)))))"

text \<open>A real of magnitude at least \<open>2^1024 - 2^970\<close> rounds to an infinity.\<close>

definition roundOverflow :: "rat \<Rightarrow> jsnum" where
  "roundOverflow q =
     (if 2 ^ 1024 - 2 ^ 970 \<le> \<bar>q\<bar> then (if 0 < q then PosInf else NegInf) else Fin q)"

definition StringToNumber :: "jsstring \<Rightarrow> jsnum" where
  "StringToNumber s =
     (let t = trim s in
      if t = [] then Fin 0
      else (case nonDecimalLiteral t of
              Some n \<Rightarrow> roundOverflow (of_nat n)
            | None \<Rightarrow>
                (let neg = (hd t = 0x2D);
                     u = (if hd t = 0x2B \<or> hd t = 0x2D then tl t else t)
                 in if u = str ''Infinity'' then (if neg then NegInf else PosInf)
                    else (case unsignedDecimal u of
                            None \<Rightarrow> NaN
                          | Some q \<Rightarrow> roundOverflow (if neg then - q else q)))))"

definition isFinite :: "jsnum \<Rightarrow> bool" where
  "isFinite n = (case n of Fin q \<Rightarrow> True | _ \<Rightarrow> False)"

subsection \<open>Arrays\<close>

text \<open>\<open>row[c]\<close> is \<open>undefined\<close> past the end of the row; \<open>rows[r]\<close> past the end of
  the sheet is \<open>undefined\<close> too, and reading a property of it raises a TypeError.\<close>

datatype error = TypeError

definition cellAt :: "cell list \<Rightarrow> nat \<Rightarrow> cell" where
  "cellAt row c = (if c < length row then row ! c else CUndefined)"

definition rowAt :: "grid \<Rightarrow> nat \<Rightarrow> cell list option" where
  "rowAt rows r = (if r < length rows then Some (rows ! r) else None)"

text \<open>\<open>rows[r] || []\<close>\<close>

definition rowOrEmpty :: "grid \<Rightarrow> nat \<Rightarrow> cell list" where
  "rowOrEmpty rows r = (case rowAt rows r of None \<Rightarrow> [] | Some cells \<Rightarrow> cells)"

text \<open>\<open>x ?? ""\<close>\<close>

fun orEmptyString :: "cell \<Rightarrow> cell" where
  "orEmptyString CUndefined = CStr []"
| "orEmptyString CNull = CStr []"
| "orEmptyString x = x"

text \<open>\<open>(rows[r] || [])[c]\<close> and \<open>String((rows[r] || [])[c] ?? "").trim()\<close>, the guarded
  reads of the block scan.\<close>

definition valAt :: "grid \<Rightarrow> nat \<Rightarrow> nat \<Rightarrow> cell" where
  "valAt rows r c = cellAt (rowOrEmpty rows r) c"

definition descAt :: "grid \<Rightarrow> nat \<Rightarrow> nat \<Rightarrow> jsstring" where
  "descAt rows r c = trim (ToString (orEmptyString (cellAt (rowOrEmpty rows r) c)))"

definition arrayIncludes :: "'a list \<Rightarrow> 'a \<Rightarrow> bool" where
  "arrayIncludes xs x \<longleftrightarrow> x \<in> set xs"

text \<open>\<open>findIndex\<close> and \<open>indexOf\<close> answer \<open>-1\<close> when nothing is found.\<close>

fun findIndex :: "('a \<Rightarrow> bool) \<Rightarrow> 'a list \<Rightarrow> int" where
  "findIndex P [] = - 1"
| "findIndex P (x # xs) =
     (if P x then 0 else (let i = findIndex P xs in if i < 0 then - 1 else i + 1))"

definition indexOf :: "'a list \<Rightarrow> 'a \<Rightarrow> int" where
  "indexOf xs x = findIndex (\<lambda>y. y = x) xs"

text \<open>\<open>xs.slice(a, a + n)\<close>\<close>

definition slice :: "'a list \<Rightarrow> nat \<Rightarrow> nat \<Rightarrow> 'a list" where
  "slice xs a n = take n (drop a xs)"

definition padStart2 :: "jsstring \<Rightarrow> jsstring" where
  "padStart2 s = replicate (2 - length s) 0x30 @ s"

subsection \<open>Array.prototype.sort\<close>

text \<open>Binary minus on numbers; the sign of a finite difference is exact.\<close>

fun jsSub :: "jsnum \<Rightarrow> jsnum \<Rightarrow> jsnum" where
  "jsSub (Fin a) (Fin b) = roundOverflow (a - b)"
| "jsSub NaN y = NaN"
| "jsSub x NaN = NaN"
| "jsSub PosInf PosInf = NaN"
| "jsSub NegInf NegInf = NaN"
| "jsSub PosInf y = PosInf"
| "jsSub NegInf y = NegInf"
| "jsSub x PosInf = NegInf"
| "jsSub x NegInf = PosInf"

fun isPositive :: "jsnum \<Rightarrow> bool" where
  "isPositive (Fin q) = (0 < q)"
| "isPositive PosInf = True"
| "isPositive x = False"

text \<open>
  \<open>sort\<close> is stable: an element moves behind another only when the comparator's answer on
  the pair is positive (a NaN answer counts as 0). A stable insertion sort gives that order.
\<close>

fun insertSorted :: "('a \<Rightarrow> 'a \<Rightarrow> jsnum) \<Rightarrow> 'a \<Rightarrow> 'a list \<Rightarrow> 'a list" where
  "insertSorted cmp x [] = [x]"
| "insertSorted cmp x (y # ys) =
     (if isPositive (cmp x y) then y # insertSorted cmp x ys else x # y # ys)"

definition arraySort :: "('a \<Rightarrow> 'a \<Rightarrow> jsnum) \<Rightarrow> 'a list \<Rightarrow> 'a list" where
  "arraySort cmp xs = foldr (insertSorted cmp) xs []"

subsection \<open>Property assignment on a plain object\<close>

text \<open>
  An object literal used as a dictionary is the map of its own properties; these are the
  properties that \<open>JSON.stringify\<close> writes out. The assignment \<open>obj[k] = v\<close> of an
  object \<open>v\<close> creates or overwrites the own property \<open>k\<close>, for every key but one: under
  the key \<open>__proto__\<close> the assignment runs the setter that the object inherits from
  \<open>Object.prototype\<close>, which makes \<open>v\<close> the prototype of the object and stores no own
  property. Every other name of \<open>Object.prototype\<close> is a writable data property, which an
  assignment shadows with an own property.
\<close>

definition assignProperty :: "(jsstring \<rightharpoonup> 'a) \<Rightarrow> jsstring \<Rightarrow> 'a \<Rightarrow> (jsstring \<rightharpoonup> 'a)" where
  "assignProperty obj k v = (if k = str ''__proto__'' then obj else obj(k \<mapsto> v))"

section \<open>scripts/sync\_onedrive\_to\_datajson.mjs\<close>

subsection \<open>brlToNumber\<close>

text \<open>\<open>s.replace(/R\$\s?/g, "")\<close>: every \<open>R$\<close>, with one white-space character after it if
  there is one, is removed.\<close>

fun stripCurrency :: "jsstring \<Rightarrow> jsstring" where
  "stripCurrency (a # b # cs) =
     (if a = 0x52 \<and> b = 0x24
      then (case cs of
              [] \<Rightarrow> []
            | c # cs' \<Rightarrow> if isWhiteSpace c then stripCurrency cs' else stripCurrency cs)
      else a # stripCurrency (b # cs))"
| "stripCurrency cs = cs"

definition removeDots :: "jsstring \<Rightarrow> jsstring" where
  "removeDots s = filter (\<lambda>c. c \<noteq> 0x2E) s"

definition commasToDots :: "jsstring \<Rightarrow> jsstring" where
  "commasToDots s = map (\<lambda>c. if c = 0x2C then 0x2E else c) s"

text \<open>\<open>None\<close> is \<open>null\<close>.\<close>

fun brlToNumber :: "cell \<Rightarrow> jsnum option" where
  "brlToNumber CUndefined = None"
| "brlToNumber CNull = None"
| "brlToNumber (CNum n) = Some n"
| "brlToNumber v =
     (let s = trim (ToString v) in
      if s = [] then None
      else (let cleaned = commasToDots (removeDots (stripCurrency s));
                n = StringToNumber cleaned
            in if isFinite n then Some n else None))"

subsection \<open>monthMap, normalize, isoDateFromMonth\<close>

text \<open>
  \<open>monthMap[k]\<close> is a property read on an object literal: it answers the month number for the
  thirteen keys of the literal, what \<open>Object.prototype\<close> holds under \<open>k\<close> for the names
  defined there (a function or an object, kept as the text \<open>String\<close> gives for it), and
  \<open>undefined\<close> (\<open>None\<close>) for every other key. Every value that is found is truthy.
\<close>

datatype propval = MonthNo nat | Inherited jsstring

definition nativeFunction :: "string \<Rightarrow> jsstring" where
  "nativeFunction name = str ''function '' @ str name @ str ''() { [native code] }''"

definition objectText :: jsstring where
  "objectText = str ''[object Object]''"

definition objectPrototype :: "(jsstring \<times> propval) list" where
  "objectPrototype =
     [(str ''constructor'', Inherited (nativeFunction ''Object'')),
      (str ''__proto__'', Inherited objectText),
      (str ''hasOwnProperty'', Inherited (nativeFunction ''hasOwnProperty'')),
      (str ''isPrototypeOf'', Inherited (nativeFunction ''isPrototypeOf'')),
      (str ''propertyIsEnumerable'', Inherited (nativeFunction ''propertyIsEnumerable'')),
      (str ''toLocaleString'', Inherited (nativeFunction ''toLocaleString'')),
      (str ''toString'', Inherited (nativeFunction ''toString'')),
      (str ''valueOf'', Inherited (nativeFunction ''valueOf'')),
      (str ''__defineGetter__'', Inherited (nativeFunction ''__defineGetter__'')),
      (str ''__defineSetter__'', Inherited (nativeFunction ''__defineSetter__'')),
      (str ''__lookupGetter__'', Inherited (nativeFunction ''__lookupGetter__'')),
      (str ''__lookupSetter__'', Inherited (nativeFunction ''__lookupSetter__''))]"

definition monthMap :: "jsstring \<Rightarrow> propval option" where
  "monthMap k =
     (case map_of
        [(str ''janeiro'', MonthNo 1), (str ''fevereiro'', MonthNo 2),
         (str ''mar'' @ [0xE7] @ str ''o'', MonthNo 3), (str ''marco'', MonthNo 3),
         (str ''abril'', MonthNo 4), (str ''maio'', MonthNo 5), (str ''junho'', MonthNo 6),
         (str ''julho'', MonthNo 7), (str ''agosto'', MonthNo 8), (str ''setembro'', MonthNo 9),
         (str ''outubro'', MonthNo 10), (str ''novembro'', MonthNo 11),
         (str ''dezembro'', MonthNo 12)] k of
        Some v \<Rightarrow> Some v
      | None \<Rightarrow> map_of objectPrototype k)"

definition normalize_js :: "cell \<Rightarrow> jsstring" where
  "normalize_js s = toLowerCase (trim (ToString (if truthy s then s else CStr [])))"

fun propToString :: "propval \<Rightarrow> jsstring" where
  "propToString (MonthNo n) = digits_of n"
| "propToString (Inherited t) = t"

definition isoDateFromMonth :: "cell \<Rightarrow> nat \<Rightarrow> jsstring option" where
  "isoDateFromMonth monthName year =
     (case monthMap (normalize_js monthName) of
        None \<Rightarrow> None
      | Some mm \<Rightarrow> Some (digits_of year @ str ''-'' @ padStart2 (propToString mm) @ str ''-01''))"

subsection \<open>The output document\<close>

text \<open>A nullable field is an option (\<open>None\<close> is \<open>null\<close>).\<close>

record SummaryRow =
  row_month :: jsstring
  row_date :: "jsstring option"
  row_entrada :: "jsnum option"
  row_saida :: "jsnum option"
  row_liquido :: "jsnum option"
  row_diferenca_m1 :: "jsnum option"
  row_crescimento :: "jsstring option"

record SeriesPoint =
  pt_month :: jsstring
  pt_date :: "jsstring option"
  pt_saida :: "jsnum option"

record LineItem =
  desc :: jsstring
  amount :: "jsnum option"

record PeriodDetail =
  det_date :: "jsstring option"
  entradas :: "LineItem list"
  saidas :: "LineItem list"

record Anchor =
  a_month :: jsstring
  a_r :: nat
  a_c :: nat

text \<open>\<open>detalheMensal\<close> is an object used as a dictionary: the map holds its own
  properties, which are the entries of \<open>detalheMensal\<close> in the file the script writes.\<close>

record Result =
  meta_year :: nat
  meta_updatedAt :: jsstring
  tabela1 :: "SummaryRow list"
  tabela2 :: "SeriesPoint list"
  tabela3 :: "SeriesPoint list"
  detalheMensal :: "jsstring \<rightharpoonup> PeriodDetail"

subsection \<open>The workbook\<close>

datatype sheet = Sheet grid

record workbook =
  SheetNames :: "jsstring list"
  Sheets :: "jsstring \<rightharpoonup> sheet"

text \<open>
  Modelled from the spec: \<open>XLSX.utils.sheet_to_json(ws, {header: 1, defval: ""})\<close> is a call
  into the xlsx library, which is not among the sources. A worksheet is represented by
  the array of row arrays the call makes of it (section 4.1: the call always succeeds); for
  a missing worksheet the call answers the empty array (section 7: a workbook with no
  sheets gives empty collections).
\<close>

fun sheet_to_json :: "sheet option \<Rightarrow> grid" where
  "sheet_to_json None = []"
| "sheet_to_json (Some (Sheet rows)) = rows"

subsection \<open>parseWorkbook: Tabela1\<close>

text \<open>
  A loop \<open>for (let r = a; r < b; r++)\<close> is a recursion over the indices \<open>[a..<b]\<close>;
  \<open>break\<close> returns what has been collected, \<open>continue\<close> goes on with the remaining
  indices, \<open>push\<close> appends to the collected list.
\<close>

definition lowerCells :: "cell list \<Rightarrow> jsstring list" where
  "lowerCells row = map (\<lambda>x. toLowerCase (trim (ToString x))) row"

definition saida_acc :: jsstring where
  "saida_acc = str ''sa'' @ [0xED] @ str ''da''"

definition liquido_acc :: jsstring where
  "liquido_acc = str ''l'' @ [0xED] @ str ''quido''"

text \<open>The test of the header search on one row.\<close>

definition isHeader :: "cell list \<Rightarrow> bool" where
  "isHeader cells =
     (let row = lowerCells cells;
          hasE = arrayIncludes row (str ''entrada'');
          hasS = (arrayIncludes row saida_acc \<or> arrayIncludes row (str ''saida''));
          hasL = (arrayIncludes row liquido_acc \<or> arrayIncludes row (str ''liquido''))
      in hasE \<and> hasS \<and> hasL)"

text \<open>The search for the header row; the answer is \<open>headerRow\<close>, \<open>-1\<close> when no row
  qualifies.\<close>

fun findHeaderRow :: "grid \<Rightarrow> nat list \<Rightarrow> error + int" where
  "findHeaderRow rows [] = Inr (- 1)"
| "findHeaderRow rows (r # rs) =
     (case rowAt rows r of
        None \<Rightarrow> Inl TypeError
      | Some cells \<Rightarrow> if isHeader cells then Inr (int r) else findHeaderRow rows rs)"

definition summaryRow :: "jsstring \<Rightarrow> cell list \<Rightarrow> SummaryRow" where
  "summaryRow month cells =
     \<lparr> row_month = month,
       row_date = isoDateFromMonth (CStr month) 2026,
       row_entrada = brlToNumber (cellAt cells 1),
       row_saida = brlToNumber (cellAt cells 2),
       row_liquido = brlToNumber (cellAt cells 3),
       row_diferenca_m1 = brlToNumber (cellAt cells 4),
       row_crescimento =
         (let g = trim (ToString (cellAt cells 5)) in if g \<noteq> [] then Some g else None) \<rparr>"

fun tabela1Loop :: "grid \<Rightarrow> nat list \<Rightarrow> SummaryRow list \<Rightarrow> error + SummaryRow list" where
  "tabela1Loop rows [] acc = Inr acc"
| "tabela1Loop rows (r # rs) acc =
     (case rowAt rows r of
        None \<Rightarrow> Inl TypeError
      | Some cells \<Rightarrow>
          (let month = trim (ToString (cellAt cells 0)) in
           if month = [] then tabela1Loop rows rs acc
           else (let mk = normalize_js (CStr month) in
                 if monthMap mk = None
                 then (if mk = str ''total'' then Inr acc else tabela1Loop rows rs acc)
                 else tabela1Loop rows rs (acc @ [summaryRow month cells]))))"

subsection \<open>parseWorkbook: parseMini (Tabela2 and Tabela3)\<close>

definition seriesPoint :: "jsstring \<Rightarrow> cell list \<Rightarrow> SeriesPoint" where
  "seriesPoint m cells =
     \<lparr> pt_month = m,
       pt_date = isoDateFromMonth (CStr m) 2026,
       pt_saida = brlToNumber (cellAt cells 1) \<rparr>"

fun miniLoop :: "grid \<Rightarrow> nat list \<Rightarrow> SeriesPoint list \<Rightarrow> error + SeriesPoint list" where
  "miniLoop rows [] data = Inr data"
| "miniLoop rows (rr # rrs) data =
     (case rowAt rows rr of
        None \<Rightarrow> Inl TypeError
      | Some cells \<Rightarrow>
          (let m = trim (ToString (cellAt cells 0)) in
           if m = [] then miniLoop rows rrs data
           else (let mk = normalize_js (CStr m) in
                 if mk = str ''total'' then Inr data
                 else if monthMap mk = None then miniLoop rows rrs data
                 else miniLoop rows rrs (data @ [seriesPoint m cells]))))"

fun miniSearch :: "grid \<Rightarrow> jsstring \<Rightarrow> nat list \<Rightarrow> error + SeriesPoint list" where
  "miniSearch rows t [] = Inr []"
| "miniSearch rows t (r # rs) =
     (case rowAt rows r of
        None \<Rightarrow> Inl TypeError
      | Some cells \<Rightarrow>
          (let row = map (\<lambda>x. trim (ToString x)) cells in
           if list_ex (\<lambda>c. toLowerCase c = t) row
           then miniLoop rows [r + 1..<min (length rows) (r + 40)] []
           else miniSearch rows t rs))"

definition parseMini :: "grid \<Rightarrow> jsstring \<Rightarrow> error + SeriesPoint list" where
  "parseMini rows title = miniSearch rows (toLowerCase title) [0..<length rows]"

subsection \<open>parseWorkbook: findMonthAnchors and the monthly blocks (Tabela4)\<close>

text \<open>The test on the row below a month cell at row \<open>r\<close>, column \<open>c\<close>.\<close>

definition hasSubHeader :: "grid \<Rightarrow> nat \<Rightarrow> nat \<Rightarrow> bool" where
  "hasSubHeader rows r c =
     (let next = lowerCells (slice (rowOrEmpty rows (r + 1)) c 20);
          hasE = arrayIncludes next (str ''entrada'');
          hasS = (arrayIncludes next saida_acc \<or> arrayIncludes next (str ''saida''))
      in hasE \<and> hasS)"

text \<open>The inner loop of \<open>findMonthAnchors\<close>, over the columns of row \<open>r\<close>.\<close>

fun anchorCols :: "grid \<Rightarrow> nat \<Rightarrow> cell list \<Rightarrow> nat list \<Rightarrow> Anchor list \<Rightarrow> Anchor list" where
  "anchorCols rows r cells [] anchors = anchors"
| "anchorCols rows r cells (c # cs) anchors =
     (let val = trim (ToString (cellAt cells c)) in
      if val = [] then anchorCols rows r cells cs anchors
      else if monthMap (normalize_js (CStr val)) = None then anchorCols rows r cells cs anchors
      else anchorCols rows r cells cs
             (if hasSubHeader rows r c then anchors @ [\<lparr> a_month = val, a_r = r, a_c = c \<rparr>]
              else anchors))"

fun anchorRows :: "grid \<Rightarrow> nat list \<Rightarrow> Anchor list \<Rightarrow> error + Anchor list" where
  "anchorRows rows [] anchors = Inr anchors"
| "anchorRows rows (r # rs) anchors =
     (case rowAt rows r of
        None \<Rightarrow> Inl TypeError
      | Some cells \<Rightarrow>
          anchorRows rows rs (anchorCols rows r cells [0..<min (length cells) 250] anchors))"

definition findMonthAnchors :: "grid \<Rightarrow> error + Anchor list" where
  "findMonthAnchors rows = anchorRows rows [0..<length rows] []"

text \<open>\<open>x || 0\<close> on an amount.\<close>

fun orZero :: "jsnum option \<Rightarrow> jsnum" where
  "orZero None = Fin 0"
| "orZero (Some NaN) = Fin 0"
| "orZero (Some n) = n"

text \<open>The comparator \<open>(a, b) => (b.amount || 0) - (a.amount || 0)\<close>.\<close>

definition compareSaidas :: "LineItem \<Rightarrow> LineItem \<Rightarrow> jsnum" where
  "compareSaidas a b = jsSub (orZero (amount b)) (orZero (amount a))"

text \<open>One side of one row of a block: the item is pushed when the description is not empty,
  is not \<open>r$\<close>, and the amount is not \<open>null\<close>.\<close>

definition pushItem :: "jsstring \<Rightarrow> cell \<Rightarrow> LineItem list \<Rightarrow> LineItem list" where
  "pushItem d v items =
     (if d \<noteq> [] \<and> normalize_js (CStr d) \<noteq> str ''r$''
      then (let n = brlToNumber v in
            if n \<noteq> None then items @ [\<lparr> desc = d, amount = n \<rparr>] else items)
      else items)"

fun itemLoop ::
  "grid \<Rightarrow> nat \<Rightarrow> nat \<Rightarrow> nat \<Rightarrow> nat \<Rightarrow> nat list \<Rightarrow> LineItem list \<times> LineItem list
     \<Rightarrow> LineItem list \<times> LineItem list" where
  "itemLoop rows entradaDescCol entradaValCol saidaDescCol saidaValCol [] acc = acc"
| "itemLoop rows entradaDescCol entradaValCol saidaDescCol saidaValCol (r # rs) acc =
     (let descE = descAt rows r entradaDescCol;
          valE = valAt rows r entradaValCol;
          descS = descAt rows r saidaDescCol;
          valS = valAt rows r saidaValCol
      in if normalize_js (CStr descE) = str ''total'' \<or> normalize_js (CStr descS) = str ''total''
         then acc
         else itemLoop rows entradaDescCol entradaValCol saidaDescCol saidaValCol rs
                (pushItem descE valE (fst acc), pushItem descS valS (snd acc)))"

text \<open>The body of \<open>for (const a of findMonthAnchors())\<close>: \<open>None\<close> is the \<open>continue\<close> of an
  anchor whose sub-header lacks a label.\<close>

definition blockDetail :: "grid \<Rightarrow> Anchor \<Rightarrow> PeriodDetail option" where
  "blockDetail rows a =
     (let header = lowerCells (slice (rowOrEmpty rows (a_r a + 1)) (a_c a) 30);
          eRel = indexOf header (str ''entrada'');
          sRel = findIndex (\<lambda>x. x = saida_acc \<or> x = str ''saida'') header
      in if eRel < 0 \<or> sRel < 0 then None
         else (let entradaDescCol = a_c a + nat eRel;
                   entradaValCol = entradaDescCol + 2;
                   saidaDescCol = a_c a + nat sRel;
                   saidaValCol = saidaDescCol + 2;
                   items = itemLoop rows entradaDescCol entradaValCol saidaDescCol saidaValCol
                             [a_r a + 2..<min (length rows) (a_r a + 60)] ([], [])
               in Some \<lparr> det_date = isoDateFromMonth (CStr (a_month a)) 2026,
                         entradas = fst items,
                         saidas = arraySort compareSaidas (snd items) \<rparr>))"

text \<open>The loop over the anchors: an anchor whose sub-header lacks a label is passed over
  (\<open>continue\<close>); for any other the detail of its block is assigned to
  \<open>out.detalheMensal[a.month]\<close>.\<close>

fun processAnchors ::
  "grid \<Rightarrow> Anchor list \<Rightarrow> (jsstring \<rightharpoonup> PeriodDetail) \<Rightarrow> (jsstring \<rightharpoonup> PeriodDetail)" where
  "processAnchors rows [] det = det"
| "processAnchors rows (a # as) det =
     (case blockDetail rows a of
        None \<Rightarrow> processAnchors rows as det
      | Some d \<Rightarrow> processAnchors rows as (assignProperty det (a_month a) d))"

subsection \<open>parseWorkbook\<close>

text \<open>
  \<open>now\<close> is what \<open>new Date().toISOString()\<close> answers when the function is called.
  \<open>sheetRows\<close> is the reading of the first sheet (the three \<open>const\<close> lines), \<open>parseRows\<close>
  the rest of the function body.
\<close>

definition sheetRows :: "workbook \<Rightarrow> grid" where
  "sheetRows wb =
     (let sheetName = (case SheetNames wb of [] \<Rightarrow> CUndefined | n # ns \<Rightarrow> CStr n);
          ws = Sheets wb (ToString sheetName)
      in sheet_to_json ws)"

definition parseRows :: "jsstring \<Rightarrow> grid \<Rightarrow> error + Result" where
  "parseRows now rows =
     (case findHeaderRow rows [0..<min (length rows) 80] of
        Inl e \<Rightarrow> Inl e
      | Inr headerRow \<Rightarrow>
     (case (if 0 \<le> headerRow then tabela1Loop rows [nat headerRow + 1..<length rows] []
            else Inr []) of
        Inl e \<Rightarrow> Inl e
      | Inr t1 \<Rightarrow>
     (case parseMini rows (str ''Nubank'') of
        Inl e \<Rightarrow> Inl e
      | Inr t2 \<Rightarrow>
     (case parseMini rows (str ''Santander'') of
        Inl e \<Rightarrow> Inl e
      | Inr t3 \<Rightarrow>
     (case findMonthAnchors rows of
        Inl e \<Rightarrow> Inl e
      | Inr anchors \<Rightarrow>
          Inr \<lparr> meta_year = 2026, meta_updatedAt = now,
                tabela1 = t1, tabela2 = t2, tabela3 = t3,
                detalheMensal = processAnchors rows anchors Map.empty \<rparr>)))))"

definition parseWorkbook :: "jsstring \<Rightarrow> workbook \<Rightarrow> error + Result" where
  "parseWorkbook now wb = parseRows now (sheetRows wb)"

section \<open>The second copy of the script (unnamed/part\_000)\<close>

text \<open>
  The second source file defines the same functions again. They are translated from that
  file on their own, under the names of the first copy with a \<open>2\<close> appended; the built-in
  operations of the language are shared.
\<close>

fun brlToNumber2 :: "cell \<Rightarrow> jsnum option" where
  "brlToNumber2 CUndefined = None"
| "brlToNumber2 CNull = None"
| "brlToNumber2 (CNum n) = Some n"
| "brlToNumber2 v =
     (let s = trim (ToString v) in
      if s = [] then None
      else (let cleaned = commasToDots (removeDots (stripCurrency s));
                n = StringToNumber cleaned
            in if isFinite n then Some n else None))"

definition monthMap2 :: "jsstring \<Rightarrow> propval option" where
  "monthMap2 k =
     (case map_of
        [(str ''janeiro'', MonthNo 1),
         (str ''fevereiro'', MonthNo 2),
         (str ''mar'' @ [0xE7] @ str ''o'', MonthNo 3),
         (str ''marco'', MonthNo 3),
         (str ''abril'', MonthNo 4),
         (str ''maio'', MonthNo 5),
         (str ''junho'', MonthNo 6),
         (str ''julho'', MonthNo 7),
         (str ''agosto'', MonthNo 8),
         (str ''setembro'', MonthNo 9),
         (str ''outubro'', MonthNo 10),
         (str ''novembro'', MonthNo 11),
         (str ''dezembro'', MonthNo 12)] k of
        Some v \<Rightarrow> Some v
      | None \<Rightarrow> map_of objectPrototype k)"

definition normalize2 :: "cell \<Rightarrow> jsstring" where
  "normalize2 s = toLowerCase (trim (ToString (if truthy s then s else CStr [])))"

definition isoDateFromMonth2 :: "cell \<Rightarrow> nat \<Rightarrow> jsstring option" where
  "isoDateFromMonth2 monthName year =
     (case monthMap2 (normalize2 monthName) of
        None \<Rightarrow> None
      | Some mm \<Rightarrow> Some (digits_of year @ str ''-'' @ padStart2 (propToString mm) @ str ''-01''))"

definition isHeader2 :: "cell list \<Rightarrow> bool" where
  "isHeader2 cells =
     (let row = map (\<lambda>x. toLowerCase (trim (ToString x))) cells;
          hasEntrada = arrayIncludes row (str ''entrada'');
          hasSaida = (arrayIncludes row saida_acc \<or> arrayIncludes row (str ''saida''));
          hasLiquido = (arrayIncludes row liquido_acc \<or> arrayIncludes row (str ''liquido''))
      in hasEntrada \<and> hasSaida \<and> hasLiquido)"

fun findHeaderRow2 :: "grid \<Rightarrow> nat list \<Rightarrow> error + int" where
  "findHeaderRow2 rows [] = Inr (- 1)"
| "findHeaderRow2 rows (r # rs) =
     (case rowAt rows r of
        None \<Rightarrow> Inl TypeError
      | Some cells \<Rightarrow> if isHeader2 cells then Inr (int r) else findHeaderRow2 rows rs)"

definition summaryRow2 :: "jsstring \<Rightarrow> cell list \<Rightarrow> SummaryRow" where
  "summaryRow2 month cells =
     \<lparr> row_month = month,
       row_date = isoDateFromMonth2 (CStr month) 2026,
       row_entrada = brlToNumber2 (cellAt cells 1),
       row_saida = brlToNumber2 (cellAt cells 2),
       row_liquido = brlToNumber2 (cellAt cells 3),
       row_diferenca_m1 = brlToNumber2 (cellAt cells 4),
       row_crescimento =
         (let g = trim (ToString (cellAt cells 5)) in if g \<noteq> [] then Some g else None) \<rparr>"

fun tabela1Loop2 :: "grid \<Rightarrow> nat list \<Rightarrow> SummaryRow list \<Rightarrow> error + SummaryRow list" where
  "tabela1Loop2 rows [] acc = Inr acc"
| "tabela1Loop2 rows (r # rs) acc =
     (case rowAt rows r of
        None \<Rightarrow> Inl TypeError
      | Some cells \<Rightarrow>
          (let month = trim (ToString (cellAt cells 0)) in
           if month = [] then tabela1Loop2 rows rs acc
           else (let mk = normalize2 (CStr month) in
                 if monthMap2 mk = None
                 then (if mk = str ''total'' then Inr acc else tabela1Loop2 rows rs acc)
                 else tabela1Loop2 rows rs (acc @ [summaryRow2 month cells]))))"

definition seriesPoint2 :: "jsstring \<Rightarrow> cell list \<Rightarrow> SeriesPoint" where
  "seriesPoint2 m cells =
     \<lparr> pt_month = m,
       pt_date = isoDateFromMonth2 (CStr m) 2026,
       pt_saida = brlToNumber2 (cellAt cells 1) \<rparr>"

fun miniLoop2 :: "grid \<Rightarrow> nat list \<Rightarrow> SeriesPoint list \<Rightarrow> error + SeriesPoint list" where
  "miniLoop2 rows [] data = Inr data"
| "miniLoop2 rows (rr # rrs) data =
     (case rowAt rows rr of
        None \<Rightarrow> Inl TypeError
      | Some cells \<Rightarrow>
          (let m = trim (ToString (cellAt cells 0)) in
           if m = [] then miniLoop2 rows rrs data
           else (let mk = normalize2 (CStr m) in
                 if mk = str ''total'' then Inr data
                 else if monthMap2 mk = None then miniLoop2 rows rrs data
                 else miniLoop2 rows rrs (data @ [seriesPoint2 m cells]))))"

fun miniSearch2 :: "grid \<Rightarrow> jsstring \<Rightarrow> nat list \<Rightarrow> error + SeriesPoint list" where
  "miniSearch2 rows t [] = Inr []"
| "miniSearch2 rows t (r # rs) =
     (case rowAt rows r of
        None \<Rightarrow> Inl TypeError
      | Some cells \<Rightarrow>
          (let row = map (\<lambda>x. trim (ToString x)) cells in
           if list_ex (\<lambda>c. toLowerCase c = t) row
           then miniLoop2 rows [r + 1..<min (length rows) (r + 40)] []
           else miniSearch2 rows t rs))"

definition parseMini2 :: "grid \<Rightarrow> jsstring \<Rightarrow> error + SeriesPoint list" where
  "parseMini2 rows title = miniSearch2 rows (toLowerCase title) [0..<length rows]"

definition hasSubHeader2 :: "grid \<Rightarrow> nat \<Rightarrow> nat \<Rightarrow> bool" where
  "hasSubHeader2 rows r c =
     (let next = map (\<lambda>x. toLowerCase (trim (ToString x))) (slice (rowOrEmpty rows (r + 1)) c 20);
          hasEntrada = arrayIncludes next (str ''entrada'');
          hasSaida = (arrayIncludes next saida_acc \<or> arrayIncludes next (str ''saida''))
      in hasEntrada \<and> hasSaida)"

fun anchorCols2 :: "grid \<Rightarrow> nat \<Rightarrow> cell list \<Rightarrow> nat list \<Rightarrow> Anchor list \<Rightarrow> Anchor list" where
  "anchorCols2 rows r cells [] anchors = anchors"
| "anchorCols2 rows r cells (c # cs) anchors =
     (let val = trim (ToString (cellAt cells c)) in
      if val = [] then anchorCols2 rows r cells cs anchors
      else if monthMap2 (normalize2 (CStr val)) = None then anchorCols2 rows r cells cs anchors
      else anchorCols2 rows r cells cs
             (if hasSubHeader2 rows r c then anchors @ [\<lparr> a_month = val, a_r = r, a_c = c \<rparr>]
              else anchors))"

fun anchorRows2 :: "grid \<Rightarrow> nat list \<Rightarrow> Anchor list \<Rightarrow> error + Anchor list" where
  "anchorRows2 rows [] anchors = Inr anchors"
| "anchorRows2 rows (r # rs) anchors =
     (case rowAt rows r of
        None \<Rightarrow> Inl TypeError
      | Some cells \<Rightarrow>
          anchorRows2 rows rs (anchorCols2 rows r cells [0..<min (length cells) 250] anchors))"

definition findMonthAnchors2 :: "grid \<Rightarrow> error + Anchor list" where
  "findMonthAnchors2 rows = anchorRows2 rows [0..<length rows] []"

definition compareSaidas2 :: "LineItem \<Rightarrow> LineItem \<Rightarrow> jsnum" where
  "compareSaidas2 a b = jsSub (orZero (amount b)) (orZero (amount a))"

definition pushItem2 :: "jsstring \<Rightarrow> cell \<Rightarrow> LineItem list \<Rightarrow> LineItem list" where
  "pushItem2 d v items =
     (if d \<noteq> [] \<and> normalize2 (CStr d) \<noteq> str ''r$''
      then (let n = brlToNumber2 v in
            if n \<noteq> None then items @ [\<lparr> desc = d, amount = n \<rparr>] else items)
      else items)"

fun itemLoop2 ::
  "grid \<Rightarrow> nat \<Rightarrow> nat \<Rightarrow> nat \<Rightarrow> nat \<Rightarrow> nat list \<Rightarrow> LineItem list \<times> LineItem list
     \<Rightarrow> LineItem list \<times> LineItem list" where
  "itemLoop2 rows entradaDescCol entradaValCol saidaDescCol saidaValCol [] acc = acc"
| "itemLoop2 rows entradaDescCol entradaValCol saidaDescCol saidaValCol (r # rs) acc =
     (let descE = descAt rows r entradaDescCol;
          valE = valAt rows r entradaValCol;
          descS = descAt rows r saidaDescCol;
          valS = valAt rows r saidaValCol
      in if normalize2 (CStr descE) = str ''total'' \<or> normalize2 (CStr descS) = str ''total''
         then acc
         else itemLoop2 rows entradaDescCol entradaValCol saidaDescCol saidaValCol rs
                (pushItem2 descE valE (fst acc), pushItem2 descS valS (snd acc)))"

definition blockDetail2 :: "grid \<Rightarrow> Anchor \<Rightarrow> PeriodDetail option" where
  "blockDetail2 rows a =
     (let monthName = a_month a;
          header = map (\<lambda>x. toLowerCase (trim (ToString x)))
                     (slice (rowOrEmpty rows (a_r a + 1)) (a_c a) 30);
          eRel = indexOf header (str ''entrada'');
          sRel = findIndex (\<lambda>x. x = saida_acc \<or> x = str ''saida'') header
      in if eRel < 0 \<or> sRel < 0 then None
         else (let entradaDescCol = a_c a + nat eRel;
                   entradaValCol = entradaDescCol + 2;
                   saidaDescCol = a_c a + nat sRel;
                   saidaValCol = saidaDescCol + 2;
                   items = itemLoop2 rows entradaDescCol entradaValCol saidaDescCol saidaValCol
                             [a_r a + 2..<min (length rows) (a_r a + 60)] ([], [])
               in Some \<lparr> det_date = isoDateFromMonth2 (CStr monthName) 2026,
                         entradas = fst items,
                         saidas = arraySort compareSaidas2 (snd items) \<rparr>))"

fun processAnchors2 ::
  "grid \<Rightarrow> Anchor list \<Rightarrow> (jsstring \<rightharpoonup> PeriodDetail) \<Rightarrow> (jsstring \<rightharpoonup> PeriodDetail)" where
  "processAnchors2 rows [] det = det"
| "processAnchors2 rows (a # as) det =
     (case blockDetail2 rows a of
        None \<Rightarrow> processAnchors2 rows as det
      | Some d \<Rightarrow> processAnchors2 rows as (assignProperty det (a_month a) d))"

definition sheetRows2 :: "workbook \<Rightarrow> grid" where
  "sheetRows2 wb =
     (let sheetName = (case SheetNames wb of [] \<Rightarrow> CUndefined | n # ns \<Rightarrow> CStr n);
          ws = Sheets wb (ToString sheetName)
      in sheet_to_json ws)"

definition parseRows2 :: "jsstring \<Rightarrow> grid \<Rightarrow> error + Result" where
  "parseRows2 now rows =
     (case findHeaderRow2 rows [0..<min (length rows) 80] of
        Inl e \<Rightarrow> Inl e
      | Inr headerRow \<Rightarrow>
     (case (if 0 \<le> headerRow then tabela1Loop2 rows [nat headerRow + 1..<length rows] []
            else Inr []) of
        Inl e \<Rightarrow> Inl e
      | Inr t1 \<Rightarrow>
     (case parseMini2 rows (str ''Nubank'') of
        Inl e \<Rightarrow> Inl e
      | Inr t2 \<Rightarrow>
     (case parseMini2 rows (str ''Santander'') of
        Inl e \<Rightarrow> Inl e
      | Inr t3 \<Rightarrow>
     (case findMonthAnchors2 rows of
        Inl e \<Rightarrow> Inl e
      | Inr anchors \<Rightarrow>
          Inr \<lparr> meta_year = 2026, meta_updatedAt = now,
                tabela1 = t1, tabela2 = t2, tabela3 = t3,
                detalheMensal = processAnchors2 rows anchors Map.empty \<rparr>)))))"

definition parseWorkbook2 :: "jsstring \<Rightarrow> workbook \<Rightarrow> error + Result" where
  "parseWorkbook2 now wb = parseRows2 now (sheetRows2 wb)"

section \<open>Notions used in the statements\<close>

text \<open>The period label of a row (column 0, as text, trimmed), the sentinel row and the row
  that the table scans emit.\<close>

definition periodCell :: "cell list \<Rightarrow> jsstring" where
  "periodCell cells = trim (ToString (cellAt cells 0))"

definition isTotalRow :: "cell list \<Rightarrow> bool" where
  "isTotalRow cells \<longleftrightarrow> normalize_js (CStr (periodCell cells)) = str ''total''"

definition isMonthRow :: "cell list \<Rightarrow> bool" where
  "isMonthRow cells \<longleftrightarrow>
     periodCell cells \<noteq> [] \<and> monthMap (normalize_js (CStr (periodCell cells))) \<noteq> None"

text \<open>A row holds the title of a mini-table: some cell, trimmed and lower-cased, is the
  lower-cased title.\<close>

definition hasTitle :: "jsstring \<Rightarrow> cell list \<Rightarrow> bool" where
  "hasTitle title cells \<longleftrightarrow>
     (\<exists>x \<in> set cells. toLowerCase (trim (ToString x)) = toLowerCase title)"

text \<open>The index of the header row of the primary table: the first of the first 80 rows
  that holds the three labels.\<close>

definition headerIndex :: "grid \<Rightarrow> nat option" where
  "headerIndex rows =
     (let k = length (takeWhile (\<lambda>cells. \<not> isHeader cells) (take 80 rows))
      in if k < min (length rows) 80 then Some k else None)"

text \<open>The sheet rows from which the primary table emits: the month rows below the header,
  up to the first total row.\<close>

definition primaryRows :: "grid \<Rightarrow> cell list list" where
  "primaryRows rows =
     (case headerIndex rows of
        None \<Rightarrow> []
      | Some h \<Rightarrow>
          filter isMonthRow (takeWhile (\<lambda>cells. \<not> isTotalRow cells) (drop (h + 1) rows)))"

text \<open>The sheet rows from which a mini-table emits: of the 39 rows below the first row
  holding the title, the month rows up to the first total row.\<close>

definition miniRows :: "grid \<Rightarrow> jsstring \<Rightarrow> cell list list" where
  "miniRows rows title =
     filter isMonthRow
       (takeWhile (\<lambda>cells. \<not> isTotalRow cells)
          (take 39 (tl (dropWhile (\<lambda>cells. \<not> hasTitle title cells) rows))))"

text \<open>The block anchors of a sheet in scan order, rows from the top and in each row the
  first 250 columns from the left: the cells that are not blank, pass the test
  \<open>monthMap[normalize(val)]\<close> and have the two labels in the 20 cells below them.\<close>

definition isAnchorCell :: "grid \<Rightarrow> nat \<Rightarrow> nat \<Rightarrow> bool" where
  "isAnchorCell rows r c \<longleftrightarrow>
     trim (ToString (cellAt (rowOrEmpty rows r) c)) \<noteq> [] \<and>
     monthMap (normalize_js (CStr (trim (ToString (cellAt (rowOrEmpty rows r) c))))) \<noteq> None \<and>
     hasSubHeader rows r c"

definition anchorAt :: "grid \<Rightarrow> nat \<Rightarrow> nat \<Rightarrow> Anchor" where
  "anchorAt rows r c =
     \<lparr> a_month = trim (ToString (cellAt (rowOrEmpty rows r) c)), a_r = r, a_c = c \<rparr>"

definition scanAnchors :: "grid \<Rightarrow> Anchor list" where
  "scanAnchors rows =
     concat (map (\<lambda>r. map (anchorAt rows r)
                         (filter (isAnchorCell rows r)
                            [0..<min (length (rowOrEmpty rows r)) 250]))
               [0..<length rows])"

text \<open>One side of a block at sheet row \<open>r\<close>, with the description in column \<open>dc\<close> and the
  amount in column \<open>vc\<close>: the item read there, and whether one is read.\<close>

definition lineItemAt :: "grid \<Rightarrow> nat \<Rightarrow> nat \<Rightarrow> nat \<Rightarrow> LineItem" where
  "lineItemAt rows dc vc r = \<lparr> desc = descAt rows r dc, amount = brlToNumber (valAt rows r vc) \<rparr>"

definition hasItemAt :: "grid \<Rightarrow> nat \<Rightarrow> nat \<Rightarrow> nat \<Rightarrow> bool" where
  "hasItemAt rows dc vc r \<longleftrightarrow>
     descAt rows r dc \<noteq> [] \<and> normalize_js (CStr (descAt rows r dc)) \<noteq> str ''r$'' \<and>
     brlToNumber (valAt rows r vc) \<noteq> None"

text \<open>Row \<open>r\<close> ends a block whose description columns are \<open>ec\<close> and \<open>sc\<close>.\<close>

definition isBlockTotal :: "grid \<Rightarrow> nat \<Rightarrow> nat \<Rightarrow> nat \<Rightarrow> bool" where
  "isBlockTotal rows ec sc r \<longleftrightarrow>
     normalize_js (CStr (descAt rows r ec)) = str ''total'' \<or>
     normalize_js (CStr (descAt rows r sc)) = str ''total''"

text \<open>The description columns of the block of an anchor, from its sub-header.\<close>

definition entradaCol :: "grid \<Rightarrow> Anchor \<Rightarrow> nat" where
  "entradaCol rows a =
     a_c a + nat (indexOf (lowerCells (slice (rowOrEmpty rows (a_r a + 1)) (a_c a) 30))
                    (str ''entrada''))"

definition saidaCol :: "grid \<Rightarrow> Anchor \<Rightarrow> nat" where
  "saidaCol rows a =
     a_c a + nat (findIndex (\<lambda>x. x = saida_acc \<or> x = str ''saida'')
                    (lowerCells (slice (rowOrEmpty rows (a_r a + 1)) (a_c a) 30)))"

text \<open>A description text \<open>d\<close> with an amount cell \<open>v\<close> that the block scan turns into a
  line item: the description is not blank, is neither the total sentinel nor the bare
  currency symbol, and the amount parses.\<close>

definition validItem :: "jsstring \<Rightarrow> cell \<Rightarrow> bool" where
  "validItem d v \<longleftrightarrow>
     trim d \<noteq> [] \<and> normalize_js (CStr (trim d)) \<noteq> str ''total'' \<and>
     normalize_js (CStr (trim d)) \<noteq> str ''r$'' \<and> brlToNumber v \<noteq> None"

text \<open>The order of the sort keys \<open>amount || 0\<close> (never NaN).\<close>

fun jsLe :: "jsnum \<Rightarrow> jsnum \<Rightarrow> bool" where
  "jsLe (Fin a) (Fin b) = (a \<le> b)"
| "jsLe NegInf y = True"
| "jsLe x PosInf = True"
| "jsLe x y = False"

text \<open>A workbook with the single sheet \<open>Plan1\<close>.\<close>

definition wbOf :: "grid \<Rightarrow> workbook" where
  "wbOf rows = \<lparr> SheetNames = [str ''Plan1''], Sheets = [str ''Plan1'' \<mapsto> Sheet rows] \<rparr>"

section \<open>Example sheets\<close>

text \<open>A mini-table: the title in the second cell of row 0 (in capitals, with blanks around
  it), a blank row, a month row, a stray row, the total row and a month row after it.\<close>

definition gridC7 :: grid where
  "gridC7 =
     [[CStr (str ''Cart'' @ [0xE3] @ str ''o''), CStr (str '' NUBANK '')],
      [CStr [], CStr (str ''9,99'')],
      [CStr (str ''Janeiro''), CStr (str ''R$ 1.234,56'')],
      [CStr (str ''obs''), CStr (str ''1,00'')],
      [CStr (str '' total''), CStr (str ''1.234,56'')],
      [CStr (str ''Fevereiro''), CStr (str ''2,00'')]]"

text \<open>A mini-table with a first cell that is a property name of \<open>Object.prototype\<close>.\<close>

definition gridC7x :: grid where
  "gridC7x =
     [[CStr (str ''Nubank''), CStr []],
      [CStr (str ''constructor''), CStr (str ''1,00'')]]"

text \<open>The primary table of the specification's example: the header row (m-e-circumflex-s,
  entrada, sa-i-acute-da, l-i-acute-quido, dif, cresc) and the data row of January, whose
  growth label is an em dash.\<close>

definition headerC1 :: "cell list" where
  "headerC1 =
     [CStr (str ''m'' @ [0xEA] @ str ''s''), CStr (str ''entrada''),
      CStr (str ''sa'' @ [0xED] @ str ''da''), CStr (str ''l'' @ [0xED] @ str ''quido''),
      CStr (str ''dif''), CStr (str ''cresc'')]"

definition janeiroC1 :: "cell list" where
  "janeiroC1 =
     [CStr (str ''Janeiro''), CStr (str ''1.000,00''), CStr (str ''500,00''),
      CStr (str ''500,00''), CStr (str ''0''), CStr [0x2014]]"

text \<open>A whole sheet around them: an empty row and a caption above, the total row and
  a February row below.\<close>

definition gridC1 :: grid where
  "gridC1 =
     [[],
      [CStr (str ''Resumo'')],
      headerC1,
      janeiroC1,
      [CStr (str ''Total''), CStr (str ''1.000,00''), CStr (str ''500,00'')],
      [CStr (str ''Fevereiro''), CStr (str ''2.000,00''), CStr (str ''700,00''),
       CStr (str ''1.300,00''), CStr (str ''800,00''), CStr (str ''160%'')]]"

text \<open>The same table in a sheet that is only four columns wide.\<close>

definition headerC5 :: "cell list" where
  "headerC5 =
     [CStr (str ''m'' @ [0xEA] @ str ''s''), CStr (str ''entrada''),
      CStr (str ''sa'' @ [0xED] @ str ''da''), CStr (str ''l'' @ [0xED] @ str ''quido'')]"

definition janeiroC5 :: "cell list" where
  "janeiroC5 =
     [CStr (str ''Janeiro''), CStr (str ''1.000,00''), CStr (str ''500,00''),
      CStr (str ''500,00'')]"

text \<open>Two monthly blocks anchored by the same text \<open>Janeiro\<close>. The sub-header has the
  inflow label in column 0 and the outflow label in column 1, so the amounts are in columns
  2 and 3. A total row ends the first block; the amounts of the second block are number
  cells holding Infinity and NaN.\<close>

definition gridBlocks :: grid where
  "gridBlocks =
     [[CStr (str ''Janeiro''), CStr [], CStr [], CStr []],
      [CStr (str ''Entrada''), CStr (str ''Sa'' @ [0xED] @ str ''da''), CStr [], CStr []],
      [CStr (str ''Salario''), CStr (str ''Aluguel''), CNum (Fin 3000), CStr (str ''1.200,00'')],
      [CStr (str ''Total''), CStr [], CNum (Fin 3000), CNum (Fin 1200)],
      [CStr (str ''Janeiro''), CStr [], CStr [], CStr []],
      [CStr (str ''entrada''), CStr (str ''saida''), CStr [], CStr []],
      [CStr (str ''Bonus''), CStr (str ''Luz''), CNum PosInf, CNum NaN]]"

text \<open>Its two anchors and the details of their blocks.\<close>

definition anchorA :: Anchor where
  "anchorA = \<lparr> a_month = str ''Janeiro'', a_r = 0, a_c = 0 \<rparr>"

definition anchorB :: Anchor where
  "anchorB = \<lparr> a_month = str ''Janeiro'', a_r = 4, a_c = 0 \<rparr>"

definition detailA :: PeriodDetail where
  "detailA =
     \<lparr> det_date = Some (str ''2026-01-01''),
       entradas = [\<lparr> desc = str ''Salario'', amount = Some (Fin 3000) \<rparr>],
       saidas = [\<lparr> desc = str ''Aluguel'', amount = Some (Fin 1200) \<rparr>] \<rparr>"

definition detailB :: PeriodDetail where
  "detailB =
     \<lparr> det_date = Some (str ''2026-01-01''),
       entradas = [\<lparr> desc = str ''Bonus'', amount = Some PosInf \<rparr>],
       saidas = [\<lparr> desc = str ''Luz'', amount = Some NaN \<rparr>] \<rparr>"






text \<open>The block of the specification's example: the sub-header with the inflow label at
  offset 0 and the outflow label at offset 4, under an anchor \<open>Fevereiro\<close> in the top
  left cell; three data rows, the second without an inflow description, the first and the
  third with equal outflow amounts.\<close>

definition subHeaderC3 :: "cell list" where
  "subHeaderC3 =
     [CStr (str ''entrada''), CStr [], CStr [], CStr [],
      CStr (str ''sa'' @ [0xED] @ str ''da''), CStr [], CStr []]"

definition gridC3 :: grid where
  "gridC3 =
     [[CStr (str ''Fevereiro''), CStr [], CStr [], CStr [], CStr [], CStr [], CStr []],
      subHeaderC3,
      [CStr (str ''Salario''), CStr (str ''R$''), CStr (str ''3.000,00''), CStr [],
       CStr (str ''Aluguel''), CStr (str ''R$''), CStr (str ''1.200,00'')],
      [CStr [], CStr [], CStr [], CStr [],
       CStr (str ''Luz''), CStr (str ''R$''), CStr (str ''1.500,00'')],
      [CStr (str ''Freela''), CStr (str ''R$''), CStr (str ''800,00''), CStr [],
       CStr (str ''Internet''), CStr (str ''R$''), CStr (str ''1.200,00'')]]"

definition anchorC3 :: Anchor where
  "anchorC3 = \<lparr> a_month = str ''Fevereiro'', a_r = 0, a_c = 0 \<rparr>"

section \<open>Properties\<close>

subsection \<open>Basic facts\<close>

lemma str_simps: "str [] = []" "str (c # cs) = of_char c # str cs"
  by (simp_all add: str_def)

text \<open>The equations that evaluate the built-in operations on a given text or number.\<close>

lemmas text_eval =
  str_simps trim_def isWhiteSpace_def toLowerCase_def lowerUnit_def normalize_js_def
  cellAt_def periodCell_def

text \<open>The keys of \<open>monthMap\<close> as code units, for evaluation.\<close>

lemma monthMap_units:
  "monthMap k =
     (if k = [106, 97, 110, 101, 105, 114, 111] then Some (MonthNo 1)
      else if k = [102, 101, 118, 101, 114, 101, 105, 114, 111] then Some (MonthNo 2)
      else if k = [109, 97, 114, 231, 111] then Some (MonthNo 3)
      else if k = [109, 97, 114, 99, 111] then Some (MonthNo 3)
      else if k = [97, 98, 114, 105, 108] then Some (MonthNo 4)
      else if k = [109, 97, 105, 111] then Some (MonthNo 5)
      else if k = [106, 117, 110, 104, 111] then Some (MonthNo 6)
      else if k = [106, 117, 108, 104, 111] then Some (MonthNo 7)
      else if k = [97, 103, 111, 115, 116, 111] then Some (MonthNo 8)
      else if k = [115, 101, 116, 101, 109, 98, 114, 111] then Some (MonthNo 9)
      else if k = [111, 117, 116, 117, 98, 114, 111] then Some (MonthNo 10)
      else if k = [110, 111, 118, 101, 109, 98, 114, 111] then Some (MonthNo 11)
      else if k = [100, 101, 122, 101, 109, 98, 114, 111] then Some (MonthNo 12)
      else if k = [99, 111, 110, 115, 116, 114, 117, 99, 116, 111, 114]
      then Some (Inherited (nativeFunction ''Object''))
      else if k = [95, 95, 112, 114, 111, 116, 111, 95, 95]
      then Some (Inherited objectText)
      else if k = [104, 97, 115, 79, 119, 110, 80, 114, 111, 112, 101, 114, 116, 121]
      then Some (Inherited (nativeFunction ''hasOwnProperty''))
      else if k = [105, 115, 80, 114, 111, 116, 111, 116, 121, 112, 101, 79, 102]
      then Some (Inherited (nativeFunction ''isPrototypeOf''))
      else if k = [112, 114, 111, 112, 101, 114, 116, 121, 73, 115, 69, 110, 117, 109, 101, 114, 97, 98, 108, 101]
      then Some (Inherited (nativeFunction ''propertyIsEnumerable''))
      else if k = [116, 111, 76, 111, 99, 97, 108, 101, 83, 116, 114, 105, 110, 103]
      then Some (Inherited (nativeFunction ''toLocaleString''))
      else if k = [116, 111, 83, 116, 114, 105, 110, 103]
      then Some (Inherited (nativeFunction ''toString''))
      else if k = [118, 97, 108, 117, 101, 79, 102]
      then Some (Inherited (nativeFunction ''valueOf''))
      else if k = [95, 95, 100, 101, 102, 105, 110, 101, 71, 101, 116, 116, 101, 114, 95, 95]
      then Some (Inherited (nativeFunction ''__defineGetter__''))
      else if k = [95, 95, 100, 101, 102, 105, 110, 101, 83, 101, 116, 116, 101, 114, 95, 95]
      then Some (Inherited (nativeFunction ''__defineSetter__''))
      else if k = [95, 95, 108, 111, 111, 107, 117, 112, 71, 101, 116, 116, 101, 114, 95, 95]
      then Some (Inherited (nativeFunction ''__lookupGetter__''))
      else if k = [95, 95, 108, 111, 111, 107, 117, 112, 83, 101, 116, 116, 101, 114, 95, 95]
      then Some (Inherited (nativeFunction ''__lookupSetter__''))
      else None)"
  by (simp add: monthMap_def objectPrototype_def str_simps split: option.splits)

lemmas month_eval =
  monthMap_units isoDateFromMonth_def padStart2_def digits_of.simps

lemmas number_eval =
  StringToNumber_def nonDecimalLiteral_def unsignedDecimal_def isDigit_def exponentPart_def
  digitsValue_def pow10_def roundOverflow_def isFinite_def removeDots_def commasToDots_def

lemma monthMap_total: "monthMap (str ''total'') = None"
  by (simp add: monthMap_def objectPrototype_def nativeFunction_def str_simps)

lemma monthMap_Nil: "monthMap [] = None"
  by (simp add: monthMap_def objectPrototype_def nativeFunction_def str_simps)

lemma str_total_neq: "str ''total'' \<noteq> []" "[] \<noteq> str ''total''"
  by (simp_all add: str_simps)

lemma month_not_proto:
  "str ''Janeiro'' \<noteq> str ''__proto__''" "str ''Fevereiro'' \<noteq> str ''__proto__''"
  by (simp_all add: str_simps)

lemma trim_Nil: "trim [] = []"
  by (simp add: trim_def)

lemma normalize_Nil: "normalize_js (CStr []) = []"
  by (simp add: normalize_js_def trim_Nil toLowerCase_def)

lemma rowAt_in: "r < length rows \<Longrightarrow> rowAt rows r = Some (rows ! r)"
  by (simp add: rowAt_def)

lemma map_nth_upt: "b \<le> length xs \<Longrightarrow> map ((!) xs) [a..<b] = drop a (take b xs)"
  by (rule nth_equalityI) auto

lemma sheetRows_wbOf: "sheetRows (wbOf rows) = rows"
  by (simp add: sheetRows_def wbOf_def)

subsection \<open>The loops of the table scans\<close>

lemma tabela1Loop_char:
  "\<forall>r\<in>set idxs. r < length rows \<Longrightarrow>
   tabela1Loop rows idxs acc =
     Inr (acc @ map (\<lambda>cells. summaryRow (periodCell cells) cells)
                  (filter isMonthRow
                     (takeWhile (\<lambda>cells. \<not> isTotalRow cells) (map ((!) rows) idxs))))"
proof (induction idxs arbitrary: acc)
  case Nil
  then show ?case by simp
next
  case (Cons r rs)
  then have r: "rowAt rows r = Some (rows ! r)" and rs: "\<forall>r\<in>set rs. r < length rows"
    by (simp_all add: rowAt_in)
  show ?case
    using Cons.IH [OF rs]
    by (auto simp: r Let_def isTotalRow_def isMonthRow_def periodCell_def monthMap_total
        normalize_Nil monthMap_Nil str_total_neq)
qed

lemma miniLoop_char:
  "\<forall>r\<in>set idxs. r < length rows \<Longrightarrow>
   miniLoop rows idxs acc =
     Inr (acc @ map (\<lambda>cells. seriesPoint (periodCell cells) cells)
                  (filter isMonthRow
                     (takeWhile (\<lambda>cells. \<not> isTotalRow cells) (map ((!) rows) idxs))))"
proof (induction idxs arbitrary: acc)
  case Nil
  then show ?case by simp
next
  case (Cons r rs)
  then have r: "rowAt rows r = Some (rows ! r)" and rs: "\<forall>r\<in>set rs. r < length rows"
    by (simp_all add: rowAt_in)
  show ?case
    using Cons.IH [OF rs]
    by (auto simp: r Let_def isTotalRow_def isMonthRow_def periodCell_def monthMap_total
        normalize_Nil monthMap_Nil str_total_neq)
qed

lemma findHeaderRow_upt:
  "n \<le> length rows \<Longrightarrow>
   findHeaderRow rows [a..<n] =
     Inr (let k = length (takeWhile (\<lambda>cells. \<not> isHeader cells) (drop a (take n rows)))
          in if a + k < n then int (a + k) else - 1)"
proof (induction "n - a" arbitrary: a)
  case 0
  then show ?case by simp
next
  case (Suc d)
  then have a: "a < n" "a < length rows" and d: "d = n - Suc a" by auto
  have upt: "[a..<n] = a # [Suc a..<n]" using a by (simp add: upt_conv_Cons)
  have dr: "drop a (take n rows) = rows ! a # drop (Suc a) (take n rows)"
    using a by (metis Cons_nth_drop_Suc length_take min.absorb2 Suc.prems nth_take)
  show ?case
    using Suc.hyps(1) [OF d Suc.prems] a
    by (simp add: upt dr rowAt_in Let_def)
qed

lemma miniLoop_upt:
  "miniLoop rows [Suc a..<min (length rows) (a + 40)] [] =
     Inr (map (\<lambda>cells. seriesPoint (periodCell cells) cells)
            (filter isMonthRow
               (takeWhile (\<lambda>cells. \<not> isTotalRow cells) (take 39 (drop (Suc a) rows)))))"
proof -
  have "map ((!) rows) [Suc a..<min (length rows) (a + 40)] = take 39 (drop (Suc a) rows)"
    by (simp add: map_nth_upt drop_take min_def)
  then show ?thesis
    by (simp add: miniLoop_char)
qed

lemma miniSearch_upt:
  "miniSearch rows (toLowerCase title) [a..<length rows] =
     Inr (map (\<lambda>cells. seriesPoint (periodCell cells) cells)
            (filter isMonthRow
               (takeWhile (\<lambda>cells. \<not> isTotalRow cells)
                  (take 39 (tl (dropWhile (\<lambda>cells. \<not> hasTitle title cells) (drop a rows)))))))"
proof (induction "length rows - a" arbitrary: a)
  case 0
  then show ?case by simp
next
  case (Suc d)
  then have a: "a < length rows" and d: "d = length rows - Suc a" by auto
  have upt: "[a..<length rows] = a # [Suc a..<length rows]" using a by (simp add: upt_conv_Cons)
  have dr: "drop a rows = rows ! a # drop (Suc a) rows"
    using a by (simp add: Cons_nth_drop_Suc)
  have t: "list_ex (\<lambda>c. toLowerCase c = toLowerCase title) (map (\<lambda>x. trim (ToString x)) (rows ! a))
           \<longleftrightarrow> hasTitle title (rows ! a)"
    by (auto simp: hasTitle_def list_ex_iff)
  show ?case
    using Suc.hyps(1) [OF d] a miniLoop_upt [of rows a]
    by (simp add: upt dr rowAt_in Let_def t)
qed

lemma tabela1Loop_upt:
  "tabela1Loop rows [a..<length rows] [] =
     Inr (map (\<lambda>cells. summaryRow (periodCell cells) cells)
            (filter isMonthRow (takeWhile (\<lambda>cells. \<not> isTotalRow cells) (drop a rows))))"
  by (simp add: tabela1Loop_char map_nth_upt)

subsection \<open>The loop over the rows of a block\<close>

lemma pushItem_char:
  "pushItem (descAt rows r dc) (valAt rows r vc) items =
     items @ (if hasItemAt rows dc vc r then [lineItemAt rows dc vc r] else [])"
  by (simp add: pushItem_def hasItemAt_def lineItemAt_def Let_def)

lemma itemLoop_char:
  "itemLoop rows ec ev sc sv idxs acc =
     (fst acc @ map (lineItemAt rows ec ev)
                  (filter (hasItemAt rows ec ev) (takeWhile (\<lambda>r. \<not> isBlockTotal rows ec sc r) idxs)),
      snd acc @ map (lineItemAt rows sc sv)
                  (filter (hasItemAt rows sc sv) (takeWhile (\<lambda>r. \<not> isBlockTotal rows ec sc r) idxs)))"
proof (induction idxs arbitrary: acc)
  case Nil
  then show ?case by simp
next
  case (Cons r rs)
  show ?case
    by (simp add: Let_def Cons.IH pushItem_char isBlockTotal_def)
qed

subsection \<open>The sort of the outflow items\<close>

lemma mset_insertSorted: "mset (insertSorted cmp x ys) = add_mset x (mset ys)"
  by (induction ys) auto

lemma mset_arraySort: "mset (arraySort cmp xs) = mset xs"
  unfolding arraySort_def by (induction xs) (auto simp: mset_insertSorted)

lemma set_arraySort: "set (arraySort cmp xs) = set xs"
  by (metis mset_arraySort set_mset_mset)

lemma length_arraySort: "length (arraySort cmp xs) = length xs"
  by (metis mset_arraySort size_mset)

lemma orZero_not_NaN: "orZero x \<noteq> NaN"
  by (cases x rule: orZero.cases) simp_all

lemma jsLe_refl: "x \<noteq> NaN \<Longrightarrow> jsLe x x"
  by (cases x) simp_all

lemma jsLe_trans: "jsLe x y \<Longrightarrow> jsLe y z \<Longrightarrow> jsLe x z"
  by (cases x; cases y; cases z) simp_all

lemma jsLe_total: "x \<noteq> NaN \<Longrightarrow> y \<noteq> NaN \<Longrightarrow> jsLe x y \<or> jsLe y x"
  by (cases x; cases y) auto

lemma jsLe_antisym: "jsLe x y \<Longrightarrow> jsLe y x \<Longrightarrow> x = y"
  by (cases x; cases y) auto

lemma isPositive_roundOverflow: "isPositive (roundOverflow q) \<longleftrightarrow> 0 < q"
  by (simp add: roundOverflow_def)

lemma isPositive_jsSub:
  "x \<noteq> NaN \<Longrightarrow> y \<noteq> NaN \<Longrightarrow> isPositive (jsSub x y) \<longleftrightarrow> \<not> jsLe x y"
  by (cases x; cases y) (auto simp: isPositive_roundOverflow)

text \<open>The comparator moves \<open>x\<close> behind \<open>y\<close> exactly when the key of \<open>x\<close> is strictly smaller.\<close>

lemma compareSaidas_pos:
  "isPositive (compareSaidas x y) \<longleftrightarrow> \<not> jsLe (orZero (amount y)) (orZero (amount x))"
  by (simp add: compareSaidas_def isPositive_jsSub orZero_not_NaN)

lemma sorted_insertSorted:
  assumes "sorted_wrt (\<lambda>a b. jsLe (orZero (amount b)) (orZero (amount a))) ys"
  shows "sorted_wrt (\<lambda>a b. jsLe (orZero (amount b)) (orZero (amount a)))
           (insertSorted compareSaidas x ys)"
  using assms
proof (induction ys)
  case Nil
  then show ?case by simp
next
  case (Cons y ys)
  show ?case
  proof (cases "isPositive (compareSaidas x y)")
    case True
    then have xy: "jsLe (orZero (amount x)) (orZero (amount y))"
      using jsLe_total [of "orZero (amount y)" "orZero (amount x)"]
      by (auto simp: compareSaidas_pos orZero_not_NaN)
    have "set (insertSorted compareSaidas x ys) = insert x (set ys)"
      by (metis mset_insertSorted set_mset_mset set_mset_add_mset_insert)
    with Cons True xy show ?thesis by auto
  next
    case False
    then have yx: "jsLe (orZero (amount y)) (orZero (amount x))"
      by (simp add: compareSaidas_pos)
    with Cons.prems False show ?thesis
      by (auto intro: jsLe_trans)
  qed
qed

lemma sorted_arraySort:
  "sorted_wrt (\<lambda>a b. jsLe (orZero (amount b)) (orZero (amount a))) (arraySort compareSaidas xs)"
  unfolding arraySort_def by (induction xs) (simp_all add: sorted_insertSorted)

lemma stable_insertSorted:
  "filter (\<lambda>z. orZero (amount z) = v) (insertSorted compareSaidas x ys) =
   filter (\<lambda>z. orZero (amount z) = v) (x # ys)"
proof (induction ys)
  case Nil
  then show ?case by simp
next
  case (Cons y ys)
  show ?case
  proof (cases "isPositive (compareSaidas x y)")
    case True
    then have "orZero (amount x) \<noteq> orZero (amount y)"
      using jsLe_refl [of "orZero (amount x)"] by (auto simp: compareSaidas_pos orZero_not_NaN)
    with True Cons show ?thesis by auto
  next
    case False
    then show ?thesis by simp
  qed
qed

lemma stable_arraySort:
  "filter (\<lambda>z. orZero (amount z) = v) (arraySort compareSaidas xs) =
   filter (\<lambda>z. orZero (amount z) = v) xs"
  unfolding arraySort_def by (induction xs) (simp_all add: stable_insertSorted)

subsection \<open>Anchors and the details map\<close>

lemma anchorCols_inv:
  assumes step: "\<And>m c. hasSubHeader rows r c \<Longrightarrow> P \<lparr> a_month = m, a_r = r, a_c = c \<rparr>"
  shows "\<forall>a\<in>set anchors. P a \<Longrightarrow> \<forall>a\<in>set (anchorCols rows r cells cs anchors). P a"
proof (induction cs arbitrary: anchors)
  case Nil
  then show ?case by simp
next
  case (Cons c cs)
  let ?val = "trim (ToString (cellAt cells c))"
  show ?case
  proof (cases "hasSubHeader rows r c")
    case True
    have "\<forall>a\<in>set (anchors @ [\<lparr> a_month = ?val, a_r = r, a_c = c \<rparr>]). P a"
      using Cons.prems step [OF True] by auto
    from Cons.IH [OF this] Cons.IH [OF Cons.prems] True show ?thesis
      by (simp add: Let_def)
  next
    case False
    with Cons.IH [OF Cons.prems] show ?thesis
      by (simp add: Let_def)
  qed
qed

lemma anchorRows_inv:
  "\<forall>r\<in>set idxs. r < length rows \<Longrightarrow> \<forall>a\<in>set anchors. P a \<Longrightarrow>
   (\<And>m r c. hasSubHeader rows r c \<Longrightarrow> P \<lparr> a_month = m, a_r = r, a_c = c \<rparr>) \<Longrightarrow>
   \<exists>as. anchorRows rows idxs anchors = Inr as \<and> (\<forall>a\<in>set as. P a)"
proof (induction idxs arbitrary: anchors)
  case Nil
  then show ?case by simp
next
  case (Cons r rs)
  have "\<forall>a\<in>set (anchorCols rows r (rows ! r) [0..<min (length (rows ! r)) 250] anchors). P a"
    using Cons.prems(2,3) by (intro anchorCols_inv) auto
  from Cons.IH [OF _ this Cons.prems(3)] Cons.prems(1) show ?case by (simp add: rowAt_in)
qed

lemma findMonthAnchors_sub:
  "\<exists>as. findMonthAnchors rows = Inr as \<and> (\<forall>a\<in>set as. hasSubHeader rows (a_r a) (a_c a))"
  unfolding findMonthAnchors_def
  by (rule anchorRows_inv) auto

lemma anchorCols_char:
  "anchorCols rows r (rowOrEmpty rows r) cs anchors =
     anchors @ map (anchorAt rows r) (filter (isAnchorCell rows r) cs)"
  by (induction cs arbitrary: anchors) (simp_all add: Let_def isAnchorCell_def anchorAt_def)

lemma anchorRows_char:
  "\<forall>r\<in>set idxs. r < length rows \<Longrightarrow>
   anchorRows rows idxs anchors =
     Inr (anchors @
          concat (map (\<lambda>r. map (anchorAt rows r)
                              (filter (isAnchorCell rows r)
                                 [0..<min (length (rowOrEmpty rows r)) 250]))
                    idxs))"
proof (induction idxs arbitrary: anchors)
  case Nil
  then show ?case by simp
next
  case (Cons r rs)
  then have r: "rowAt rows r = Some (rows ! r)" "rowOrEmpty rows r = rows ! r"
    by (simp_all add: rowAt_def rowOrEmpty_def)
  from Cons.prems have rs: "\<forall>r\<in>set rs. r < length rows"
    by simp
  show ?case
    using anchorCols_char [of rows r "[0..<min (length (rows ! r)) 250]" anchors]
    by (simp add: r Cons.IH [OF rs])
qed

lemma findMonthAnchors_scan: "findMonthAnchors rows = Inr (scanAnchors rows)"
  by (simp add: findMonthAnchors_def scanAnchors_def anchorRows_char)

lemma scanAnchors_sub: "a \<in> set (scanAnchors rows) \<Longrightarrow> hasSubHeader rows (a_r a) (a_c a)"
  by (auto simp: scanAnchors_def isAnchorCell_def anchorAt_def)

lemma findIndex_nonneg: "0 \<le> findIndex P xs \<longleftrightarrow> (\<exists>x\<in>set xs. P x)"
  by (induction xs) (auto simp: Let_def)

lemma slice_mono: "set (slice xs c 20) \<subseteq> set (slice xs c 30)"
  unfolding slice_def by (rule set_take_subset_set_take) simp

lemma blockDetail_Some:
  assumes "hasSubHeader rows (a_r a) (a_c a)"
  shows "blockDetail rows a \<noteq> None"
proof -
  let ?n = "lowerCells (slice (rowOrEmpty rows (a_r a + 1)) (a_c a) 20)"
  let ?h = "lowerCells (slice (rowOrEmpty rows (a_r a + 1)) (a_c a) 30)"
  have sub: "set ?n \<subseteq> set ?h"
    using slice_mono [of "rowOrEmpty rows (a_r a + 1)" "a_c a"]
    by (auto simp: lowerCells_def)
  from assms have e: "str ''entrada'' \<in> set ?n" and s: "saida_acc \<in> set ?n \<or> str ''saida'' \<in> set ?n"
    by (simp_all add: hasSubHeader_def Let_def arrayIncludes_def)
  from e sub have "0 \<le> indexOf ?h (str ''entrada'')"
    unfolding indexOf_def findIndex_nonneg by auto
  moreover from s sub have "0 \<le> findIndex (\<lambda>x. x = saida_acc \<or> x = str ''saida'') ?h"
    unfolding findIndex_nonneg by auto
  ultimately show ?thesis
    by (simp add: blockDetail_def Let_def)
qed

lemma processAnchors_proto:
  "processAnchors rows as det (str ''__proto__'') = det (str ''__proto__'')"
proof (induction as arbitrary: det)
  case Nil
  then show ?case by simp
next
  case (Cons a as)
  show ?case
    by (cases "blockDetail rows a") (simp_all add: Cons.IH assignProperty_def)
qed

lemma processAnchors_char:
  assumes "k \<noteq> str ''__proto__''"
  shows "processAnchors rows as det k =
     (case filter (\<lambda>a. a_month a = k \<and> blockDetail rows a \<noteq> None) as of
        [] \<Rightarrow> det k
      | x # xs \<Rightarrow> blockDetail rows (last (x # xs)))"
proof (induction as arbitrary: det)
  case Nil
  then show ?case by simp
next
  case (Cons a as)
  show ?case
    using assms
    by (cases "blockDetail rows a")
       (auto simp: Cons.IH assignProperty_def split: list.splits)
qed

subsection \<open>The whole extraction\<close>

lemma findHeaderRow_headerIndex:
  "findHeaderRow rows [0..<min (length rows) 80] =
     Inr (case headerIndex rows of None \<Rightarrow> - 1 | Some h \<Rightarrow> int h)"
proof -
  have "take (min (length rows) 80) rows = take 80 rows"
    by (simp add: min_def)
  then show ?thesis
    by (simp add: findHeaderRow_upt headerIndex_def Let_def)
qed

lemma parseMini_char:
  "parseMini rows title =
     Inr (map (\<lambda>cells. seriesPoint (periodCell cells) cells) (miniRows rows title))"
  using miniSearch_upt [of rows title 0]
  by (simp add: parseMini_def miniRows_def)

lemma parseRows_char:
  assumes "findMonthAnchors rows = Inr anchors"
  shows "parseRows now rows =
     Inr \<lparr> meta_year = 2026, meta_updatedAt = now,
           tabela1 = map (\<lambda>cells. summaryRow (periodCell cells) cells) (primaryRows rows),
           tabela2 = map (\<lambda>cells. seriesPoint (periodCell cells) cells)
                       (miniRows rows (str ''Nubank'')),
           tabela3 = map (\<lambda>cells. seriesPoint (periodCell cells) cells)
                       (miniRows rows (str ''Santander'')),
           detalheMensal = processAnchors rows anchors Map.empty \<rparr>"
proof (cases "headerIndex rows")
  case None
  then show ?thesis
    by (simp add: parseRows_def findHeaderRow_headerIndex parseMini_char assms primaryRows_def)
next
  case (Some h)
  then show ?thesis
    by (simp add: parseRows_def findHeaderRow_headerIndex parseMini_char assms primaryRows_def
        tabela1Loop_upt)
qed

lemma parseWorkbook_total: "\<exists>out. parseWorkbook now wb = Inr out"
  using findMonthAnchors_sub [of "sheetRows wb"]
  by (auto simp: parseWorkbook_def parseRows_char)

subsection \<open>The two copies of the script\<close>

lemma brlToNumber2_eq: "brlToNumber2 v = brlToNumber v"
  by (cases v) simp_all

lemma monthMap2_eq: "monthMap2 k = monthMap k"
  by (simp add: monthMap2_def monthMap_def)

lemma normalize2_eq: "normalize2 s = normalize_js s"
  by (simp add: normalize2_def normalize_js_def)

lemma isoDateFromMonth2_eq: "isoDateFromMonth2 m y = isoDateFromMonth m y"
  by (simp add: isoDateFromMonth2_def isoDateFromMonth_def monthMap2_eq normalize2_eq)

lemma isHeader2_eq: "isHeader2 cells = isHeader cells"
  by (simp add: isHeader2_def isHeader_def lowerCells_def)

lemma findHeaderRow2_eq: "findHeaderRow2 rows idxs = findHeaderRow rows idxs"
  by (induction idxs) (simp_all add: isHeader2_eq split: option.splits)

lemma summaryRow2_eq: "summaryRow2 m cells = summaryRow m cells"
  by (simp add: summaryRow2_def summaryRow_def isoDateFromMonth2_eq brlToNumber2_eq)

lemma tabela1Loop2_eq: "tabela1Loop2 rows idxs acc = tabela1Loop rows idxs acc"
  by (induction idxs arbitrary: acc)
     (simp_all add: summaryRow2_eq monthMap2_eq normalize2_eq Let_def split: option.splits)

lemma seriesPoint2_eq: "seriesPoint2 m cells = seriesPoint m cells"
  by (simp add: seriesPoint2_def seriesPoint_def isoDateFromMonth2_eq brlToNumber2_eq)

lemma miniLoop2_eq: "miniLoop2 rows idxs acc = miniLoop rows idxs acc"
  by (induction idxs arbitrary: acc)
     (simp_all add: seriesPoint2_eq monthMap2_eq normalize2_eq Let_def split: option.splits)

lemma miniSearch2_eq: "miniSearch2 rows t idxs = miniSearch rows t idxs"
  by (induction idxs) (simp_all add: miniLoop2_eq Let_def split: option.splits)

lemma parseMini2_eq: "parseMini2 rows title = parseMini rows title"
  by (simp add: parseMini2_def parseMini_def miniSearch2_eq)

lemma hasSubHeader2_eq: "hasSubHeader2 rows r c = hasSubHeader rows r c"
  by (simp add: hasSubHeader2_def hasSubHeader_def lowerCells_def)

lemma anchorCols2_eq: "anchorCols2 rows r cells cs anchors = anchorCols rows r cells cs anchors"
  by (induction cs arbitrary: anchors)
     (simp_all add: hasSubHeader2_eq monthMap2_eq normalize2_eq Let_def)

lemma anchorRows2_eq: "anchorRows2 rows idxs anchors = anchorRows rows idxs anchors"
  by (induction idxs arbitrary: anchors) (simp_all add: anchorCols2_eq split: option.splits)

lemma findMonthAnchors2_eq: "findMonthAnchors2 rows = findMonthAnchors rows"
  by (simp add: findMonthAnchors2_def findMonthAnchors_def anchorRows2_eq)

lemma compareSaidas2_eq: "compareSaidas2 = compareSaidas"
  by (intro ext) (simp add: compareSaidas2_def compareSaidas_def)

lemma pushItem2_eq: "pushItem2 d v items = pushItem d v items"
  by (simp add: pushItem2_def pushItem_def normalize2_eq brlToNumber2_eq)

lemma itemLoop2_eq: "itemLoop2 rows ec ev sc sv idxs acc = itemLoop rows ec ev sc sv idxs acc"
  by (induction idxs arbitrary: acc) (simp_all add: pushItem2_eq normalize2_eq Let_def)

lemma blockDetail2_eq: "blockDetail2 rows a = blockDetail rows a"
  by (simp add: blockDetail2_def blockDetail_def lowerCells_def itemLoop2_eq compareSaidas2_eq
      isoDateFromMonth2_eq Let_def)

lemma processAnchors2_eq: "processAnchors2 rows as det = processAnchors rows as det"
  by (induction as arbitrary: det) (simp_all add: blockDetail2_eq split: option.splits)

lemma parseRows2_eq: "parseRows2 now rows = parseRows now rows"
  by (simp add: parseRows2_def parseRows_def findHeaderRow2_eq tabela1Loop2_eq parseMini2_eq
      findMonthAnchors2_eq processAnchors2_eq cong: sum.case_cong if_cong)

lemma sheetRows2_eq: "sheetRows2 wb = sheetRows wb"
  by (simp add: sheetRows2_def sheetRows_def)

text \<open>
  C9. The two source files each define \<open>parseWorkbook\<close>; on every workbook the two
  functions return (neither raises), and their results are equal apart from the
  \<open>updatedAt\<close> time stamp, whatever the clock says at the two calls.
\<close>

theorem C9_two_copies_agree:
  "\<exists>out. parseWorkbook now1 wb = Inr out \<and>
         parseWorkbook2 now2 wb = Inr (out\<lparr> meta_updatedAt := now2 \<rparr>)"
proof -
  obtain anchors where a: "findMonthAnchors (sheetRows wb) = Inr anchors"
    using findMonthAnchors_sub by blast
  show ?thesis
    by (simp add: parseWorkbook_def parseWorkbook2_def parseRows2_eq sheetRows2_eq
        parseRows_char [OF a])
qed

subsection \<open>The mini-tables\<close>

text \<open>
  \<open>parseMini\<close> always returns. Its answer is read from the rows below the first row in
  which some cell, trimmed and lower-cased, equals the lower-cased title: of the (at most)
  39 rows that follow it, the rows up to and without the first one whose first cell
  normalizes to \<open>total\<close> are kept, those whose first cell is blank or fails the test
  \<open>monthMap[mk]\<close> are skipped, and each remaining row gives the point with the period from
  column 0 and the outflow from column 1. When no row holds the title the answer is empty.
\<close>

lemma parseMini_scan:
  "parseMini rows title =
     Inr (map (\<lambda>cells. \<lparr> pt_month = periodCell cells,
                          pt_date = isoDateFromMonth (CStr (periodCell cells)) 2026,
                          pt_saida = brlToNumber (cellAt cells 1) \<rparr>)
            (filter isMonthRow
               (takeWhile (\<lambda>cells. \<not> isTotalRow cells)
                  (take 39 (tl (dropWhile (\<lambda>cells. \<not> hasTitle title cells) rows))))))"
  by (simp add: parseMini_char miniRows_def seriesPoint_def)

lemma parseMini_no_title:
  assumes "\<forall>cells\<in>set rows. \<not> hasTitle title cells"
  shows "parseMini rows title = Inr []"
proof -
  from assms have d: "dropWhile (\<lambda>cells. \<not> hasTitle title cells) rows = []"
    by simp
  show ?thesis by (subst parseMini_scan) (simp only: d, simp)
qed

lemma parseMini_gridC7:
  "parseMini gridC7 (str ''Nubank'') =
     Inr [\<lparr> pt_month = str ''Janeiro'', pt_date = Some (str ''2026-01-01''),
             pt_saida = Some (Fin (123456 / 100)) \<rparr>]"
  "parseMini gridC7 (str ''Santander'') = Inr []"
proof -
  show "parseMini gridC7 (str ''Nubank'') =
     Inr [\<lparr> pt_month = str ''Janeiro'', pt_date = Some (str ''2026-01-01''),
             pt_saida = Some (Fin (123456 / 100)) \<rparr>]"
    by (subst parseMini_scan)
       (simp add: gridC7_def hasTitle_def isTotalRow_def isMonthRow_def text_eval month_eval
          number_eval)
  have "\<forall>cells\<in>set gridC7. \<not> hasTitle (str ''Santander'') cells"
    by (simp add: gridC7_def hasTitle_def text_eval)
  then show "parseMini gridC7 (str ''Santander'') = Inr []"
    by (rule parseMini_no_title)
qed

lemma parseWorkbook_tabela2:
  "\<exists>out. parseWorkbook now wb = Inr out \<and>
         tabela2 out = map (\<lambda>cells. seriesPoint (periodCell cells) cells)
                         (miniRows (sheetRows wb) (str ''Nubank''))"
proof -
  obtain anchors where a: "findMonthAnchors (sheetRows wb) = Inr anchors"
    using findMonthAnchors_sub by blast
  show ?thesis
    by (simp add: parseWorkbook_def parseRows_char [OF a])
qed

text \<open>
  C7, at a failing input. The sheet has the title \<open>Nubank\<close> in row 0 and, below it, a row
  whose first cell is the text \<open>constructor\<close>, which is no month. \<open>monthMap\<close> is an object
  literal, so \<open>monthMap["constructor"]\<close> is the function inherited from
  \<open>Object.prototype\<close>, which is truthy: the row is not skipped. It is emitted as a point
  of the mini-table, with a date built from the text of that function.
\<close>

theorem C7_inherited_name_row:
  "\<exists>out. parseWorkbook [] (wbOf gridC7x) = Inr out \<and>
         tabela2 out =
           [\<lparr> pt_month = str ''constructor'',
              pt_date = Some (str ''2026-function Object() { [native code] }-01''),
              pt_saida = Some (Fin 1) \<rparr>]"
proof -
  have "miniRows gridC7x (str ''Nubank'') = [[CStr (str ''constructor''), CStr (str ''1,00'')]]"
    by (simp add: miniRows_def gridC7x_def hasTitle_def isTotalRow_def isMonthRow_def text_eval
        month_eval)
  moreover have "seriesPoint (periodCell [CStr (str ''constructor''), CStr (str ''1,00'')])
                   [CStr (str ''constructor''), CStr (str ''1,00'')] =
                 \<lparr> pt_month = str ''constructor'',
                   pt_date = Some (str ''2026-function Object() { [native code] }-01''),
                   pt_saida = Some (Fin 1) \<rparr>"
    by (simp add: seriesPoint_def text_eval month_eval nativeFunction_def number_eval)
  ultimately show ?thesis
    using parseWorkbook_tabela2 [of "[]" "wbOf gridC7x"] by (simp add: sheetRows_wbOf)
qed

subsection \<open>The primary table\<close>

lemma isHeader_headerC1: "isHeader headerC1"
  by (simp add: isHeader_def headerC1_def lowerCells_def arrayIncludes_def saida_acc_def
      liquido_acc_def text_eval)

lemma janeiroC1_row: "\<not> isTotalRow janeiroC1" "isMonthRow janeiroC1"
  by (simp_all add: isTotalRow_def isMonthRow_def janeiroC1_def text_eval month_eval)

lemma summaryRow_janeiroC1:
  "summaryRow (periodCell janeiroC1) janeiroC1 =
     \<lparr> row_month = str ''Janeiro'', row_date = Some (str ''2026-01-01''),
       row_entrada = Some (Fin 1000), row_saida = Some (Fin 500),
       row_liquido = Some (Fin 500), row_diferenca_m1 = Some (Fin 0),
       row_crescimento = Some [0x2014] \<rparr>"
  by (simp add: summaryRow_def janeiroC1_def text_eval month_eval number_eval)

lemma isTotalRow_Total: "isTotalRow (CStr (str ''Total'') # rest)"
  by (simp add: isTotalRow_def text_eval)

lemma parseWorkbook_tabela1:
  "\<exists>out. parseWorkbook now wb = Inr out \<and>
         tabela1 out = map (\<lambda>cells. summaryRow (periodCell cells) cells) (primaryRows (sheetRows wb))"
proof -
  obtain anchors where a: "findMonthAnchors (sheetRows wb) = Inr anchors"
    using findMonthAnchors_sub by blast
  show ?thesis
    by (simp add: parseWorkbook_def parseRows_char [OF a])
qed

text \<open>
  C1. Take a sheet whose rows 0 and 1 are not header rows and whose row 2 is the header
  \<open>headerC1\<close>, followed by the single data row \<open>janeiroC1\<close> (Janeiro; 1.000,00; 500,00;
  500,00; 0; a dash) and then by a row whose first cell is \<open>Total\<close>; the other cells of
  that row and all rows after it are arbitrary. Then \<open>parseWorkbook\<close> returns, and the
  primary table holds exactly one row: period Janeiro, date 2026-01-01, inflow 1000,
  outflow 500, net 500. Nothing is emitted from the Total row or from any row after it.
\<close>

theorem C1_primary_scan_example:
  assumes "\<not> isHeader p0" and "\<not> isHeader p1"
  shows "\<exists>out. parseWorkbook now
                 (wbOf (p0 # p1 # headerC1 # janeiroC1 # (CStr (str ''Total'') # rest) # post))
               = Inr out \<and>
               tabela1 out =
                 [\<lparr> row_month = str ''Janeiro'', row_date = Some (str ''2026-01-01''),
                    row_entrada = Some (Fin 1000), row_saida = Some (Fin 500),
                    row_liquido = Some (Fin 500), row_diferenca_m1 = Some (Fin 0),
                    row_crescimento = Some [0x2014] \<rparr>]"
proof -
  let ?rows = "p0 # p1 # headerC1 # janeiroC1 # (CStr (str ''Total'') # rest) # post"
  have h: "headerIndex ?rows = Some 2"
    using assms by (simp add: headerIndex_def isHeader_headerC1)
  have p: "primaryRows ?rows = [janeiroC1]"
    by (simp add: primaryRows_def h janeiroC1_row isTotalRow_Total)
  from parseWorkbook_tabela1 [of now "wbOf ?rows"] show ?thesis
    by (simp add: sheetRows_wbOf p summaryRow_janeiroC1)
qed

theorem C1_primary_scan_example_witness:
  "\<not> isHeader [] \<and> \<not> isHeader [CStr (str ''Resumo'')] \<and>
   (\<exists>out. parseWorkbook [] (wbOf gridC1) = Inr out \<and>
          tabela1 out =
            [\<lparr> row_month = str ''Janeiro'', row_date = Some (str ''2026-01-01''),
               row_entrada = Some (Fin 1000), row_saida = Some (Fin 500),
               row_liquido = Some (Fin 500), row_diferenca_m1 = Some (Fin 0),
               row_crescimento = Some [0x2014] \<rparr>])"
proof -
  have 0: "\<not> isHeader []"
    by (simp add: isHeader_def lowerCells_def arrayIncludes_def)
  have 1: "\<not> isHeader [CStr (str ''Resumo'')]"
    by (simp add: isHeader_def lowerCells_def arrayIncludes_def text_eval)
  from C1_primary_scan_example [OF 0 1, of "[]"
      "[CStr (str ''1.000,00''), CStr (str ''500,00'')]"
      "[[CStr (str ''Fevereiro''), CStr (str ''2.000,00''), CStr (str ''700,00''),
         CStr (str ''1.300,00''), CStr (str ''800,00''), CStr (str ''160%'')]]"]
  show ?thesis
    using 0 1 by (simp add: gridC1_def)
qed

text \<open>
  C2, as the code has it. \<open>parseWorkbook\<close> returns, and its primary table is made, row by
  row, from the emitted sheet rows (the month rows below the header, up to the first total
  row): column 0 is the period, columns 1 to 5 are read as inflow (\<open>entrada\<close>), outflow
  (\<open>saida\<close>), net, difference to the previous month and growth label, in that order, with
  \<open>brlToNumber\<close> applied to columns 1 to 4. Column 1 holds the inflow and column 2 the
  outflow.
\<close>

theorem C2_primary_columns:
  "\<exists>out. parseWorkbook now wb = Inr out \<and>
         tabela1 out =
           map (\<lambda>cells.
                  \<lparr> row_month = periodCell cells,
                    row_date = isoDateFromMonth (CStr (periodCell cells)) 2026,
                    row_entrada = brlToNumber (cellAt cells 1),
                    row_saida = brlToNumber (cellAt cells 2),
                    row_liquido = brlToNumber (cellAt cells 3),
                    row_diferenca_m1 = brlToNumber (cellAt cells 4),
                    row_crescimento =
                      (if trim (ToString (cellAt cells 5)) \<noteq> []
                       then Some (trim (ToString (cellAt cells 5))) else None) \<rparr>)
               (primaryRows (sheetRows wb))"
  using parseWorkbook_tabela1 [of now wb]
  by (simp add: summaryRow_def Let_def)

text \<open>
  The claim as stated puts the outflow in column 1 and the inflow in column 2. On the sheet
  made of the header and the January row, column 1 parses to 1000 and column 2 to 500, and
  the emitted row has outflow 500 and inflow 1000.
\<close>

theorem C2_counterexample:
  "\<exists>out x. parseWorkbook [] (wbOf [headerC1, janeiroC1]) = Inr out \<and> tabela1 out = [x] \<and>
           brlToNumber (cellAt janeiroC1 1) = Some (Fin 1000) \<and>
           brlToNumber (cellAt janeiroC1 2) = Some (Fin 500) \<and>
           row_saida x = Some (Fin 500) \<and> row_entrada x = Some (Fin 1000) \<and>
           row_saida x \<noteq> brlToNumber (cellAt janeiroC1 1) \<and>
           row_entrada x \<noteq> brlToNumber (cellAt janeiroC1 2)"
proof -
  have h: "headerIndex [headerC1, janeiroC1] = Some 0"
    by (simp add: headerIndex_def isHeader_headerC1)
  have p: "primaryRows [headerC1, janeiroC1] = [janeiroC1]"
    by (simp add: primaryRows_def h janeiroC1_row)
  have c: "brlToNumber (cellAt janeiroC1 1) = Some (Fin 1000)"
          "brlToNumber (cellAt janeiroC1 2) = Some (Fin 500)"
    by (simp_all add: janeiroC1_def text_eval number_eval)
  from parseWorkbook_tabela1 [of "[]" "wbOf [headerC1, janeiroC1]"] c show ?thesis
    by (auto simp add: sheetRows_wbOf p summaryRow_janeiroC1)
qed

text \<open>
  C5, at a failing input. The sheet is four columns wide, so the January row has no cells 4
  and 5. The read of cell 4 gives \<open>undefined\<close>, which \<open>brlToNumber\<close> turns into \<open>null\<close>;
  the read of cell 5 gives \<open>undefined\<close> too, and the growth label becomes the text
  \<open>undefined\<close> instead of \<open>null\<close>. No error is raised.
\<close>

theorem C5_short_row_growth_label:
  "\<exists>out. parseWorkbook [] (wbOf [headerC5, janeiroC5]) = Inr out \<and>
         tabela1 out =
           [\<lparr> row_month = str ''Janeiro'', row_date = Some (str ''2026-01-01''),
              row_entrada = Some (Fin 1000), row_saida = Some (Fin 500),
              row_liquido = Some (Fin 500), row_diferenca_m1 = None,
              row_crescimento = Some (str ''undefined'') \<rparr>]"
proof -
  have h: "headerIndex [headerC5, janeiroC5] = Some 0"
    by (simp add: headerIndex_def headerC5_def isHeader_def lowerCells_def arrayIncludes_def
        saida_acc_def liquido_acc_def text_eval)
  have r: "\<not> isTotalRow janeiroC5" "isMonthRow janeiroC5"
    by (simp_all add: janeiroC5_def isTotalRow_def isMonthRow_def text_eval month_eval)
  have p: "primaryRows [headerC5, janeiroC5] = [janeiroC5]"
    using r by (simp add: primaryRows_def h)
  have s: "summaryRow (periodCell janeiroC5) janeiroC5 =
           \<lparr> row_month = str ''Janeiro'', row_date = Some (str ''2026-01-01''),
              row_entrada = Some (Fin 1000), row_saida = Some (Fin 500),
              row_liquido = Some (Fin 500), row_diferenca_m1 = None,
              row_crescimento = Some (str ''undefined'') \<rparr>"
    by (simp add: summaryRow_def janeiroC5_def text_eval month_eval number_eval)
  from parseWorkbook_tabela1 [of "[]" "wbOf [headerC5, janeiroC5]"] show ?thesis
    by (simp add: sheetRows_wbOf p s)
qed

subsection \<open>Workbooks without data\<close>

lemma isHeader_blank:
  assumes "\<forall>x\<in>set cells. trim (ToString x) = []"
  shows "\<not> isHeader cells"
proof -
  have "set (lowerCells cells) \<subseteq> {[]}"
    using assms by (auto simp: lowerCells_def toLowerCase_def)
  moreover have "str ''entrada'' \<noteq> []"
    by (simp add: str_simps)
  ultimately show ?thesis
    by (auto simp: isHeader_def Let_def arrayIncludes_def)
qed

lemma hasTitle_blank:
  assumes "\<forall>x\<in>set cells. trim (ToString x) = []" and "title \<noteq> []"
  shows "\<not> hasTitle title cells"
  using assms by (auto simp: hasTitle_def toLowerCase_def)

lemma anchorCols_blank:
  assumes "\<forall>x\<in>set cells. trim (ToString x) = []"
  shows "\<forall>c\<in>set cs. c < length cells \<Longrightarrow> anchorCols rows r cells cs anchors = anchors"
proof (induction cs)
  case Nil
  then show ?case by simp
next
  case (Cons c cs)
  then have "trim (ToString (cellAt cells c)) = []"
    using assms by (simp add: cellAt_def)
  with Cons show ?case by simp
qed

lemma anchorRows_blank:
  assumes "\<forall>cells\<in>set rows. \<forall>x\<in>set cells. trim (ToString x) = []"
  shows "\<forall>r\<in>set idxs. r < length rows \<Longrightarrow> anchorRows rows idxs anchors = Inr anchors"
proof (induction idxs)
  case Nil
  then show ?case by simp
next
  case (Cons r rs)
  then have "rows ! r \<in> set rows"
    by simp
  with assms have "\<forall>x\<in>set (rows ! r). trim (ToString x) = []"
    by blast
  from anchorCols_blank [OF this, of "[0..<min (length (rows ! r)) 250]" rows r anchors] Cons
  show ?case by (simp add: rowAt_in)
qed

lemma parseRows_blank:
  assumes "\<forall>cells\<in>set rows. \<forall>x\<in>set cells. trim (ToString x) = []"
  shows "parseRows now rows =
           Inr \<lparr> meta_year = 2026, meta_updatedAt = now, tabela1 = [], tabela2 = [],
                 tabela3 = [], detalheMensal = Map.empty \<rparr>"
proof -
  have a: "findMonthAnchors rows = Inr []"
    unfolding findMonthAnchors_def by (rule anchorRows_blank [OF assms]) simp
  have "\<forall>cells\<in>set (take 80 rows). \<not> isHeader cells"
    using assms by (auto simp: isHeader_blank dest!: in_set_takeD)
  then have "takeWhile (\<lambda>cells. \<not> isHeader cells) (take 80 rows) = take 80 rows"
    by (simp only: takeWhile_eq_all_conv)
  then have h: "headerIndex rows = None"
    by (simp only: headerIndex_def Let_def) simp
  have m: "miniRows rows title = []" if "title \<noteq> []" for title
  proof -
    have "dropWhile (\<lambda>cells. \<not> hasTitle title cells) rows = []"
      using assms that by (simp add: hasTitle_blank)
    then show ?thesis by (simp only: miniRows_def) simp
  qed
  have n: "str ''Nubank'' \<noteq> []" "str ''Santander'' \<noteq> []"
    by (simp_all add: str_simps)
  show ?thesis
    by (simp add: parseRows_char [OF a] primaryRows_def h m n)
qed

text \<open>
  C4. When the workbook has no sheets, or its first sheet is empty (no rows at all, or only
  cells that are blank once trimmed), \<open>parseWorkbook\<close> returns, without an error, the
  well-formed result whose primary table, two mini-tables and details map are all empty.
\<close>

theorem C4_empty_workbook:
  assumes "(SheetNames wb = [] \<and> Sheets wb (str ''undefined'') = None) \<or>
           (\<exists>n ns rows. SheetNames wb = n # ns \<and> Sheets wb n = Some (Sheet rows) \<and>
              (\<forall>cells\<in>set rows. \<forall>x\<in>set cells. trim (ToString x) = []))"
  shows "parseWorkbook now wb =
           Inr \<lparr> meta_year = 2026, meta_updatedAt = now, tabela1 = [], tabela2 = [],
                 tabela3 = [], detalheMensal = Map.empty \<rparr>"
proof -
  from assms have "\<forall>cells\<in>set (sheetRows wb). \<forall>x\<in>set cells. trim (ToString x) = []"
    by (auto simp: sheetRows_def)
  then show ?thesis
    unfolding parseWorkbook_def by (rule parseRows_blank)
qed

theorem C4_empty_workbook_witness:
  "parseWorkbook (str ''t'') \<lparr> SheetNames = [], Sheets = Map.empty \<rparr> =
     Inr \<lparr> meta_year = 2026, meta_updatedAt = str ''t'', tabela1 = [], tabela2 = [],
           tabela3 = [], detalheMensal = Map.empty \<rparr> \<and>
   parseWorkbook (str ''t'') (wbOf []) =
     Inr \<lparr> meta_year = 2026, meta_updatedAt = str ''t'', tabela1 = [], tabela2 = [],
           tabela3 = [], detalheMensal = Map.empty \<rparr> \<and>
   parseWorkbook (str ''t'') (wbOf [[CStr [], CStr (str ''  '')], [CStr []]]) =
     Inr \<lparr> meta_year = 2026, meta_updatedAt = str ''t'', tabela1 = [], tabela2 = [],
           tabela3 = [], detalheMensal = Map.empty \<rparr>"
proof -
  have 1: "parseWorkbook (str ''t'') \<lparr> SheetNames = [], Sheets = Map.empty \<rparr> =
     Inr \<lparr> meta_year = 2026, meta_updatedAt = str ''t'', tabela1 = [], tabela2 = [],
           tabela3 = [], detalheMensal = Map.empty \<rparr>"
    by (rule C4_empty_workbook) simp
  have 2: "parseWorkbook (str ''t'') (wbOf []) =
     Inr \<lparr> meta_year = 2026, meta_updatedAt = str ''t'', tabela1 = [], tabela2 = [],
           tabela3 = [], detalheMensal = Map.empty \<rparr>"
    by (rule C4_empty_workbook) (simp add: wbOf_def)
  have 3: "parseWorkbook (str ''t'') (wbOf [[CStr [], CStr (str ''  '')], [CStr []]]) =
     Inr \<lparr> meta_year = 2026, meta_updatedAt = str ''t'', tabela1 = [], tabela2 = [],
           tabela3 = [], detalheMensal = Map.empty \<rparr>"
    by (rule C4_empty_workbook) (simp add: wbOf_def text_eval)
  from 1 2 3 show ?thesis by (intro conjI)
qed

subsection \<open>The monthly blocks\<close>

lemmas block_eval =
  rowOrEmpty_def rowAt_def slice_def lowerCells_def arrayIncludes_def saida_acc_def
  hasSubHeader_def descAt_def valAt_def indexOf_def numToString_def digits_of.simps

lemma Suc4: "Suc (Suc (Suc (Suc 0))) = 4"
  by simp

lemma blockDetail_char:
  assumes "blockDetail rows a = Some d"
  shows "d = \<lparr> det_date = isoDateFromMonth (CStr (a_month a)) 2026,
               entradas =
                 map (lineItemAt rows (entradaCol rows a) (entradaCol rows a + 2))
                   (filter (hasItemAt rows (entradaCol rows a) (entradaCol rows a + 2))
                      (takeWhile
                         (\<lambda>r. \<not> isBlockTotal rows (entradaCol rows a) (saidaCol rows a) r)
                         [a_r a + 2..<min (length rows) (a_r a + 60)])),
               saidas =
                 arraySort compareSaidas
                   (map (lineItemAt rows (saidaCol rows a) (saidaCol rows a + 2))
                      (filter (hasItemAt rows (saidaCol rows a) (saidaCol rows a + 2))
                         (takeWhile
                            (\<lambda>r. \<not> isBlockTotal rows (entradaCol rows a) (saidaCol rows a) r)
                            [a_r a + 2..<min (length rows) (a_r a + 60)]))) \<rparr>"
  using assms
  by (simp add: blockDetail_def Let_def itemLoop_char entradaCol_def saidaCol_def
      split: if_splits)

lemma lineItems_amounts:
  "i \<in> set (map (lineItemAt rows dc vc) (filter (hasItemAt rows dc vc) rs)) \<Longrightarrow>
   amount i \<noteq> None"
  by (auto simp: lineItemAt_def hasItemAt_def)

lemma blockDetail_amounts:
  assumes "blockDetail rows a = Some d" and "i \<in> set (entradas d) \<union> set (saidas d)"
  shows "amount i \<noteq> None"
proof -
  from assms(2) have "i \<in> set (entradas d) \<or> i \<in> set (saidas d)"
    by simp
  then show ?thesis
  proof
    assume "i \<in> set (entradas d)"
    then show ?thesis
      by (subst (asm) blockDetail_char [OF assms(1)])
         (simp add: lineItems_amounts del: set_map set_filter)
  next
    assume "i \<in> set (saidas d)"
    then show ?thesis
      by (subst (asm) blockDetail_char [OF assms(1)])
         (simp add: set_arraySort lineItems_amounts del: set_map set_filter)
  qed
qed

lemma detalheMensal_from_anchor:
  assumes "processAnchors rows as Map.empty k = Some d"
  shows "\<exists>a\<in>set as. a_month a = k \<and> blockDetail rows a = Some d"
proof -
  let ?same = "filter (\<lambda>a. a_month a = k \<and> blockDetail rows a \<noteq> None) as"
  from assms have k: "k \<noteq> str ''__proto__''"
    by (auto simp: processAnchors_proto)
  from assms have ne: "?same \<noteq> []" and d: "blockDetail rows (last ?same) = Some d"
    by (auto simp: processAnchors_char [OF k] split: list.splits)
  from ne have "last ?same \<in> set ?same"
    by (rule last_in_set)
  with d show ?thesis by auto
qed

lemma anchors_gridBlocks: "findMonthAnchors gridBlocks = Inr [anchorA, anchorB]"
  by (simp add: findMonthAnchors_def gridBlocks_def anchorA_def anchorB_def upt_rec text_eval
      block_eval monthMap_units Let_def Suc4)

lemma blockA_gridBlocks: "blockDetail gridBlocks anchorA = Some detailA"
  by (simp add: blockDetail_def gridBlocks_def anchorA_def detailA_def upt_rec text_eval
      block_eval month_eval number_eval pushItem_def arraySort_def Let_def)

lemma blockB_gridBlocks: "blockDetail gridBlocks anchorB = Some detailB"
  by (simp add: blockDetail_def gridBlocks_def anchorB_def detailB_def upt_rec text_eval
      block_eval month_eval number_eval pushItem_def arraySort_def Let_def)

text \<open>
  C6. For every anchor whose block is valid (\<open>blockDetail\<close> answers a detail), the rows
  scanned for line items are those from two below the anchor, that is below the sub-header
  row, up to the end of the sheet and short of row \<open>a.r + 60\<close>: at most 60 rows (58, in
  fact). Of these, only the rows before the first one on which the inflow or the outflow
  description normalizes to \<open>total\<close> are read, for both lists alike: the inflow items
  are the items of those rows on the inflow side, and the outflow items are the items of
  the same rows on the outflow side, sorted.
\<close>

theorem C6_block_scan:
  assumes "blockDetail rows a = Some d"
  shows "length [a_r a + 2..<min (length rows) (a_r a + 60)] \<le> 60 \<and>
         entradas d =
           map (lineItemAt rows (entradaCol rows a) (entradaCol rows a + 2))
             (filter (hasItemAt rows (entradaCol rows a) (entradaCol rows a + 2))
                (takeWhile (\<lambda>r. \<not> isBlockTotal rows (entradaCol rows a) (saidaCol rows a) r)
                   [a_r a + 2..<min (length rows) (a_r a + 60)])) \<and>
         saidas d =
           arraySort compareSaidas
             (map (lineItemAt rows (saidaCol rows a) (saidaCol rows a + 2))
                (filter (hasItemAt rows (saidaCol rows a) (saidaCol rows a + 2))
                   (takeWhile (\<lambda>r. \<not> isBlockTotal rows (entradaCol rows a) (saidaCol rows a) r)
                      [a_r a + 2..<min (length rows) (a_r a + 60)])))"
proof (intro conjI)
  show "length [a_r a + 2..<min (length rows) (a_r a + 60)] \<le> 60"
    by simp
  show "entradas d =
           map (lineItemAt rows (entradaCol rows a) (entradaCol rows a + 2))
             (filter (hasItemAt rows (entradaCol rows a) (entradaCol rows a + 2))
                (takeWhile (\<lambda>r. \<not> isBlockTotal rows (entradaCol rows a) (saidaCol rows a) r)
                   [a_r a + 2..<min (length rows) (a_r a + 60)]))"
    by (subst blockDetail_char [OF assms]) simp
  show "saidas d =
           arraySort compareSaidas
             (map (lineItemAt rows (saidaCol rows a) (saidaCol rows a + 2))
                (filter (hasItemAt rows (saidaCol rows a) (saidaCol rows a + 2))
                   (takeWhile (\<lambda>r. \<not> isBlockTotal rows (entradaCol rows a) (saidaCol rows a) r)
                      [a_r a + 2..<min (length rows) (a_r a + 60)])))"
    by (subst blockDetail_char [OF assms]) simp
qed

lemma scanned_gridBlocks:
  "takeWhile (\<lambda>r. \<not> isBlockTotal gridBlocks 0 1 r) [2..<7] = [2]"
  by (simp add: isBlockTotal_def gridBlocks_def upt_rec text_eval block_eval)

theorem C6_block_scan_witness:
  "blockDetail gridBlocks anchorA = Some detailA \<and>
   length [a_r anchorA + 2..<min (length gridBlocks) (a_r anchorA + 60)] \<le> 60 \<and>
   entradas detailA =
     map (lineItemAt gridBlocks (entradaCol gridBlocks anchorA) (entradaCol gridBlocks anchorA + 2))
       (filter (hasItemAt gridBlocks (entradaCol gridBlocks anchorA)
                  (entradaCol gridBlocks anchorA + 2))
          (takeWhile (\<lambda>r. \<not> isBlockTotal gridBlocks (entradaCol gridBlocks anchorA)
                                (saidaCol gridBlocks anchorA) r)
             [a_r anchorA + 2..<min (length gridBlocks) (a_r anchorA + 60)])) \<and>
   takeWhile (\<lambda>r. \<not> isBlockTotal gridBlocks 0 1 r) [2..<7] = [2]"
  using C6_block_scan [OF blockA_gridBlocks] blockA_gridBlocks scanned_gridBlocks
  by blast

lemma result_gridBlocks:
  "\<exists>out. parseWorkbook now (wbOf gridBlocks) = Inr out \<and>
         detalheMensal out (str ''Janeiro'') = Some detailB"
proof -
  have a: "findMonthAnchors (sheetRows (wbOf gridBlocks)) = Inr [anchorA, anchorB]"
    by (simp add: sheetRows_wbOf anchors_gridBlocks)
  have m: "a_month anchorA = str ''Janeiro''" "a_month anchorB = str ''Janeiro''"
    by (simp_all add: anchorA_def anchorB_def)
  have "processAnchors gridBlocks [anchorA, anchorB] Map.empty (str ''Janeiro'') = Some detailB"
    by (simp add: blockA_gridBlocks blockB_gridBlocks m assignProperty_def month_not_proto)
  then show ?thesis
    using parseRows_char [OF a, of now] by (simp add: parseWorkbook_def sheetRows_wbOf)
qed

text \<open>
  The details map of every workbook: it holds nothing under the text \<open>__proto__\<close>; under
  any other text \<open>k\<close> it holds nothing when no anchor has the text \<open>k\<close>, and otherwise the
  detail computed for the last anchor, in scan order, whose text as it stands in the sheet is
  \<open>k\<close>. That detail is \<open>blockDetail\<close> of the sheet and that one anchor: the lists of
  earlier anchors with the same text take no part in it.
\<close>

lemma detalheMensal_last_anchor:
  "\<exists>out. parseWorkbook now wb = Inr out \<and>
         (\<forall>k. detalheMensal out k =
                (if k = str ''__proto__'' then None
                 else case filter (\<lambda>a. a_month a = k) (scanAnchors (sheetRows wb)) of
                        [] \<Rightarrow> None
                      | b # bs \<Rightarrow> blockDetail (sheetRows wb) (last (b # bs))))"
proof -
  let ?rows = "sheetRows wb" and ?as = "scanAnchors (sheetRows wb)"
  have some: "\<forall>a\<in>set ?as. blockDetail ?rows a \<noteq> None"
    by (simp add: blockDetail_Some scanAnchors_sub)
  then have f: "filter (\<lambda>a. a_month a = k \<and> blockDetail ?rows a \<noteq> None) ?as =
                filter (\<lambda>a. a_month a = k) ?as" for k
    by (intro filter_cong) auto
  have d: "processAnchors ?rows ?as Map.empty k =
             (if k = str ''__proto__'' then None
              else case filter (\<lambda>a. a_month a = k) ?as of
                     [] \<Rightarrow> None
                   | b # bs \<Rightarrow> blockDetail ?rows (last (b # bs)))" for k
  proof (cases "k = str ''__proto__''")
    case True
    then show ?thesis
      by (simp add: processAnchors_proto)
  next
    case False
    then show ?thesis
      by (subst processAnchors_char [OF False], subst f) simp
  qed
  show ?thesis
    using d
    by (simp only: parseWorkbook_def parseRows_char [OF findMonthAnchors_scan]) simp
qed





text \<open>
  C10. \<open>brlToNumber\<close> (in both copies) returns a value of number type as it is, NaN and the
  infinities included. Every line item of every detail in the output has an amount that is
  not \<open>null\<close>. Amounts need not be finite: on the sheet \<open>gridBlocks\<close> the detail stored
  for Janeiro has an inflow item with amount Infinity and an outflow item with amount NaN,
  both read from number cells.
\<close>

theorem C10_number_passthrough:
  "brlToNumber (CNum n) = Some n \<and> brlToNumber2 (CNum n) = Some n \<and>
   (parseWorkbook now wb = Inr out \<and> detalheMensal out k = Some d \<longrightarrow>
      (\<forall>i\<in>set (entradas d) \<union> set (saidas d). amount i \<noteq> None)) \<and>
   (\<exists>out' d'. parseWorkbook now (wbOf gridBlocks) = Inr out' \<and>
       detalheMensal out' (str ''Janeiro'') = Some d' \<and>
       map amount (entradas d') = [Some PosInf] \<and> map amount (saidas d') = [Some NaN])"
proof (intro conjI impI)
  show "brlToNumber (CNum n) = Some n"
    by simp
next
  show "brlToNumber2 (CNum n) = Some n"
    by simp
next
  assume h: "parseWorkbook now wb = Inr out \<and> detalheMensal out k = Some d"
  obtain anchors where a: "findMonthAnchors (sheetRows wb) = Inr anchors"
    using findMonthAnchors_sub by blast
  from h have "processAnchors (sheetRows wb) anchors Map.empty k = Some d"
    by (auto simp: parseWorkbook_def parseRows_char [OF a])
  then obtain b where "blockDetail (sheetRows wb) b = Some d"
    using detalheMensal_from_anchor by blast
  then show "\<forall>i\<in>set (entradas d) \<union> set (saidas d). amount i \<noteq> None"
    using blockDetail_amounts by blast
next
  from result_gridBlocks [of now] obtain out' where
    "parseWorkbook now (wbOf gridBlocks) = Inr out'"
    "detalheMensal out' (str ''Janeiro'') = Some detailB"
    by blast
  moreover have "map amount (entradas detailB) = [Some PosInf]"
    "map amount (saidas detailB) = [Some NaN]"
    by (simp_all add: detailB_def)
  ultimately show "\<exists>out' d'. parseWorkbook now (wbOf gridBlocks) = Inr out' \<and>
       detalheMensal out' (str ''Janeiro'') = Some d' \<and>
       map amount (entradas d') = [Some PosInf] \<and> map amount (saidas d') = [Some NaN]"
    by (intro exI [of _ out'] exI [of _ detailB] conjI)
qed

theorem C10_number_passthrough_witness:
  "brlToNumber (CNum NaN) = Some NaN \<and> brlToNumber (CNum PosInf) = Some PosInf \<and>
   (\<exists>out. parseWorkbook [] (wbOf gridBlocks) = Inr out \<and>
          detalheMensal out (str ''Janeiro'') = Some detailB \<and>
          list_all (\<lambda>i. amount i \<noteq> None) (entradas detailB @ saidas detailB))"
proof -
  from result_gridBlocks [of "[]"] obtain out where
    o: "parseWorkbook [] (wbOf gridBlocks) = Inr out"
    and d: "detalheMensal out (str ''Janeiro'') = Some detailB"
    by blast
  from C10_number_passthrough [of NaN "[]" "wbOf gridBlocks" out "str ''Janeiro''" detailB] o d
  have n: "brlToNumber (CNum NaN) = Some NaN"
    and i: "\<forall>i\<in>set (entradas detailB) \<union> set (saidas detailB). amount i \<noteq> None"
    by blast+
  from C10_number_passthrough [of PosInf "[]" "wbOf gridBlocks" out "str ''Janeiro''" detailB]
  have p: "brlToNumber (CNum PosInf) = Some PosInf"
    by blast
  from i have "list_all (\<lambda>i. amount i \<noteq> None) (entradas detailB @ saidas detailB)"
    by (simp only: list_all_iff set_append)
  with n p o d show ?thesis
    by blast
qed

subsection \<open>The example block\<close>

lemma cols_C3:
  "indexOf (lowerCells (slice subHeaderC3 0 30)) (str ''entrada'') = 0"
  "findIndex (\<lambda>x. x = saida_acc \<or> x = str ''saida'') (lowerCells (slice subHeaderC3 0 30)) = 4"
  by (simp_all add: indexOf_def subHeaderC3_def lowerCells_def slice_def saida_acc_def text_eval)

lemma date_C3: "isoDateFromMonth (CStr (str ''Fevereiro'')) 2026 = Some (str ''2026-02-01'')"
  by (simp add: text_eval month_eval)

lemma pushItem_valid:
  "validItem d v \<Longrightarrow> pushItem (trim d) v items = items @ [\<lparr> desc = trim d, amount = brlToNumber v \<rparr>]"
  by (simp add: validItem_def pushItem_def Let_def)

lemma pushItem_blank: "pushItem [] v items = items"
  by (simp add: pushItem_def)

lemma blockDetail_C3:
  assumes "validItem dEa vEa" "validItem dSa vSa"
      and "trim dEb = []" "validItem dSb vSb"
      and "validItem dEc vEc" "validItem dSc vSc"
  shows "blockDetail
           [anchorRow, subHeaderC3,
            [CStr dEa, fa, vEa, ga, CStr dSa, ha, vSa],
            [CStr dEb, fb, vEb, gb, CStr dSb, hb, vSb],
            [CStr dEc, fc, vEc, gc, CStr dSc, hc, vSc]] anchorC3 =
         Some \<lparr> det_date = Some (str ''2026-02-01''),
                entradas = [\<lparr> desc = trim dEa, amount = brlToNumber vEa \<rparr>,
                            \<lparr> desc = trim dEc, amount = brlToNumber vEc \<rparr>],
                saidas = arraySort compareSaidas
                           [\<lparr> desc = trim dSa, amount = brlToNumber vSa \<rparr>,
                            \<lparr> desc = trim dSb, amount = brlToNumber vSb \<rparr>,
                            \<lparr> desc = trim dSc, amount = brlToNumber vSc \<rparr>] \<rparr>"
proof -
  have t: "normalize_js (CStr (trim dEa)) \<noteq> str ''total''"
    "normalize_js (CStr (trim dSa)) \<noteq> str ''total''"
    "normalize_js (CStr (trim dSb)) \<noteq> str ''total''"
    "normalize_js (CStr (trim dEc)) \<noteq> str ''total''"
    "normalize_js (CStr (trim dSc)) \<noteq> str ''total''"
    using assms by (simp_all add: validItem_def)
  show ?thesis
    by (simp add: blockDetail_def anchorC3_def rowOrEmpty_def rowAt_def cols_C3
        date_C3 upt_rec descAt_def valAt_def cellAt_def Let_def t assms(3) normalize_Nil
        str_total_neq pushItem_valid [OF assms(1)] pushItem_valid [OF assms(2)]
        pushItem_valid [OF assms(4)] pushItem_valid [OF assms(5)] pushItem_valid [OF assms(6)]
        pushItem_blank)
qed

text \<open>
  C3. Take a sheet of five rows: any row 0 (the anchor \<open>Fevereiro\<close> is at row 0,
  column 0), the sub-header with the inflow label at offset 0 and the outflow label at
  offset 4, and three data rows with a description in columns 0 and 4 and an amount in
  columns 2 and 6. The inflow description of the second row is blank; every other
  description with its amount is valid. Then the block yields a detail with exactly 2
  inflow items (rows 1 and 3) and 3 outflow items: each side is skipped on its own. The
  outflow items are the three items read, sorted by descending amount (the sort key
  \<open>amount || 0\<close>), and items of equal key keep the order of their rows.
\<close>

theorem C3_fevereiro_block:
  assumes "validItem dEa vEa" "validItem dSa vSa"
      and "trim dEb = []" "validItem dSb vSb"
      and "validItem dEc vEc" "validItem dSc vSc"
  shows "\<exists>d. blockDetail
               [anchorRow, subHeaderC3,
                [CStr dEa, fa, vEa, ga, CStr dSa, ha, vSa],
                [CStr dEb, fb, vEb, gb, CStr dSb, hb, vSb],
                [CStr dEc, fc, vEc, gc, CStr dSc, hc, vSc]] anchorC3 = Some d \<and>
             entradas d = [\<lparr> desc = trim dEa, amount = brlToNumber vEa \<rparr>,
                           \<lparr> desc = trim dEc, amount = brlToNumber vEc \<rparr>] \<and>
             length (entradas d) = 2 \<and> length (saidas d) = 3 \<and>
             mset (saidas d) = mset [\<lparr> desc = trim dSa, amount = brlToNumber vSa \<rparr>,
                                     \<lparr> desc = trim dSb, amount = brlToNumber vSb \<rparr>,
                                     \<lparr> desc = trim dSc, amount = brlToNumber vSc \<rparr>] \<and>
             sorted_wrt (\<lambda>x y. jsLe (orZero (amount y)) (orZero (amount x))) (saidas d) \<and>
             (\<forall>v. filter (\<lambda>z. orZero (amount z) = v) (saidas d) =
                  filter (\<lambda>z. orZero (amount z) = v)
                    [\<lparr> desc = trim dSa, amount = brlToNumber vSa \<rparr>,
                     \<lparr> desc = trim dSb, amount = brlToNumber vSb \<rparr>,
                     \<lparr> desc = trim dSc, amount = brlToNumber vSc \<rparr>])"
  by (simp only: blockDetail_C3 [OF assms] option.inject simp_thms ex_simps
      PeriodDetail.simps mset_arraySort length_arraySort sorted_arraySort stable_arraySort)
     simp

lemma valid_C3:
  "validItem (str ''Salario'') (CStr (str ''3.000,00''))"
  "validItem (str ''Aluguel'') (CStr (str ''1.200,00''))"
  "trim [] = []"
  "validItem (str ''Luz'') (CStr (str ''1.500,00''))"
  "validItem (str ''Freela'') (CStr (str ''800,00''))"
  "validItem (str ''Internet'') (CStr (str ''1.200,00''))"
  by (simp_all add: validItem_def text_eval number_eval)

lemma items_C3:
  "\<lparr> desc = trim (str ''Salario''), amount = brlToNumber (CStr (str ''3.000,00'')) \<rparr> =
     \<lparr> desc = str ''Salario'', amount = Some (Fin 3000) \<rparr>"
  "\<lparr> desc = trim (str ''Freela''), amount = brlToNumber (CStr (str ''800,00'')) \<rparr> =
     \<lparr> desc = str ''Freela'', amount = Some (Fin 800) \<rparr>"
  "\<lparr> desc = trim (str ''Aluguel''), amount = brlToNumber (CStr (str ''1.200,00'')) \<rparr> =
     \<lparr> desc = str ''Aluguel'', amount = Some (Fin 1200) \<rparr>"
  "\<lparr> desc = trim (str ''Luz''), amount = brlToNumber (CStr (str ''1.500,00'')) \<rparr> =
     \<lparr> desc = str ''Luz'', amount = Some (Fin 1500) \<rparr>"
  "\<lparr> desc = trim (str ''Internet''), amount = brlToNumber (CStr (str ''1.200,00'')) \<rparr> =
     \<lparr> desc = str ''Internet'', amount = Some (Fin 1200) \<rparr>"
  by (simp_all add: text_eval number_eval)

lemma sort_C3:
  "arraySort compareSaidas
     [\<lparr> desc = str ''Aluguel'', amount = Some (Fin 1200) \<rparr>,
      \<lparr> desc = str ''Luz'', amount = Some (Fin 1500) \<rparr>,
      \<lparr> desc = str ''Internet'', amount = Some (Fin 1200) \<rparr>] =
     [\<lparr> desc = str ''Luz'', amount = Some (Fin 1500) \<rparr>,
      \<lparr> desc = str ''Aluguel'', amount = Some (Fin 1200) \<rparr>,
      \<lparr> desc = str ''Internet'', amount = Some (Fin 1200) \<rparr>]"
  by (simp add: arraySort_def compareSaidas_def roundOverflow_def)

lemma anchors_gridC3: "findMonthAnchors gridC3 = Inr [anchorC3]"
  by (simp add: findMonthAnchors_def gridC3_def subHeaderC3_def anchorC3_def upt_rec text_eval
      rowOrEmpty_def rowAt_def slice_def lowerCells_def arrayIncludes_def saida_acc_def
      hasSubHeader_def monthMap_units Let_def)

theorem C3_fevereiro_block_witness:
  "validItem (str ''Salario'') (CStr (str ''3.000,00'')) \<and>
   validItem (str ''Aluguel'') (CStr (str ''1.200,00'')) \<and>
   trim [] = [] \<and>
   validItem (str ''Luz'') (CStr (str ''1.500,00'')) \<and>
   validItem (str ''Freela'') (CStr (str ''800,00'')) \<and>
   validItem (str ''Internet'') (CStr (str ''1.200,00'')) \<and>
   (\<exists>out d. parseWorkbook [] (wbOf gridC3) = Inr out \<and>
      detalheMensal out (str ''Fevereiro'') = Some d \<and>
      blockDetail gridC3 anchorC3 = Some d \<and>
      entradas d = [\<lparr> desc = str ''Salario'', amount = Some (Fin 3000) \<rparr>,
                    \<lparr> desc = str ''Freela'', amount = Some (Fin 800) \<rparr>] \<and>
      saidas d = [\<lparr> desc = str ''Luz'', amount = Some (Fin 1500) \<rparr>,
                  \<lparr> desc = str ''Aluguel'', amount = Some (Fin 1200) \<rparr>,
                  \<lparr> desc = str ''Internet'', amount = Some (Fin 1200) \<rparr>])"
proof -
  let ?row0 = "[CStr (str ''Fevereiro''), CStr [], CStr [], CStr [], CStr [], CStr [], CStr []]"
  have g: "gridC3 =
     [?row0, subHeaderC3,
      [CStr (str ''Salario''), CStr (str ''R$''), CStr (str ''3.000,00''), CStr [],
       CStr (str ''Aluguel''), CStr (str ''R$''), CStr (str ''1.200,00'')],
      [CStr [], CStr [], CStr [], CStr [],
       CStr (str ''Luz''), CStr (str ''R$''), CStr (str ''1.500,00'')],
      [CStr (str ''Freela''), CStr (str ''R$''), CStr (str ''800,00''), CStr [],
       CStr (str ''Internet''), CStr (str ''R$''), CStr (str ''1.200,00'')]]"
    by (simp add: gridC3_def)
  from C3_fevereiro_block [OF valid_C3, where anchorRow = "?row0" and fa = "CStr (str ''R$'')"
      and ga = "CStr []" and ha = "CStr (str ''R$'')" and fb = "CStr []" and vEb = "CStr []"
      and gb = "CStr []" and hb = "CStr (str ''R$'')" and fc = "CStr (str ''R$'')"
      and gc = "CStr []" and hc = "CStr (str ''R$'')"]
  obtain d where b: "blockDetail gridC3 anchorC3 = Some d"
    and e: "entradas d = [\<lparr> desc = str ''Salario'', amount = Some (Fin 3000) \<rparr>,
                          \<lparr> desc = str ''Freela'', amount = Some (Fin 800) \<rparr>]"
    unfolding g [symmetric] items_C3 by blast
  from b blockDetail_C3 [OF valid_C3, where anchorRow = "?row0" and fa = "CStr (str ''R$'')"
      and ga = "CStr []" and ha = "CStr (str ''R$'')" and fb = "CStr []" and vEb = "CStr []"
      and gb = "CStr []" and hb = "CStr (str ''R$'')" and fc = "CStr (str ''R$'')"
      and gc = "CStr []" and hc = "CStr (str ''R$'')"]
  have s: "saidas d = [\<lparr> desc = str ''Luz'', amount = Some (Fin 1500) \<rparr>,
                       \<lparr> desc = str ''Aluguel'', amount = Some (Fin 1200) \<rparr>,
                       \<lparr> desc = str ''Internet'', amount = Some (Fin 1200) \<rparr>]"
    unfolding g [symmetric] items_C3 sort_C3 by auto
  have a: "findMonthAnchors (sheetRows (wbOf gridC3)) = Inr [anchorC3]"
    by (simp add: sheetRows_wbOf anchors_gridC3)
  have "processAnchors gridC3 [anchorC3] Map.empty (str ''Fevereiro'') = Some d"
    by (simp add: b anchorC3_def [symmetric])
       (simp add: anchorC3_def assignProperty_def month_not_proto)
  then have "\<exists>out. parseWorkbook [] (wbOf gridC3) = Inr out \<and>
                   detalheMensal out (str ''Fevereiro'') = Some d"
    using parseRows_char [OF a, of "[]"] by (simp add: parseWorkbook_def sheetRows_wbOf)
  with b e s valid_C3 show ?thesis
    by blast
qed

end
